theory Spec2Isabelle
  imports Complex_Main "HOL-Library.Word"
begin

unbundle bit_operations_syntax

section \<open>Seeded PRNG (class XorShift32)\<close>

text \<open>
  The generator keeps one JavaScript number as its state. Every assignment to it goes
  through a 32-bit bitwise operator, so only its 32-bit pattern matters: the state is a
  \<open>32 word\<close>. The seed is a JavaScript number; integer seeds are modelled, as \<open>int\<close>,
  and \<open>seed >>> 0\<close> (ToUint32) is \<open>word_of_int\<close>, the seed modulo \<open>2 ^ 32\<close>.
\<close>

type_synonym u32 = "32 word"

definition XorShift32 :: "int \<Rightarrow> u32" where
  "XorShift32 seed = (if seed = 0 then 1 else word_of_int seed)"

text \<open>\<open>next()\<close> returns \<open>this.state >>> 0\<close> and leaves the new state behind: (value, state).\<close>

definition prng_next :: "u32 \<Rightarrow> u32 \<times> u32" where
  "prng_next state =
     (let s1 = state XOR push_bit 13 state;
          s2 = s1 XOR drop_bit 17 s1;
          s3 = s2 XOR push_bit 5 s2
      in (s3, s3))"

text \<open>
  \<open>int(max)\<close> is \<open>next() % max\<close>. The callers pass the length of a non-empty array;
  for \<open>max = 0\<close> JavaScript yields NaN, which is \<open>None\<close> here.
\<close>

definition prng_int :: "nat \<Rightarrow> u32 \<Rightarrow> nat option \<times> u32" where
  "prng_int maxv state =
     (let (r, state') = prng_next state
      in (if maxv = 0 then None else Some (unat r mod maxv), state'))"

text \<open>\<open>pick(array)\<close> is \<open>array[this.int(array.length)]\<close>; \<open>None\<close> is \<open>undefined\<close>.\<close>

definition prng_pick :: "'a list \<Rightarrow> u32 \<Rightarrow> 'a option \<times> u32" where
  "prng_pick array state =
     (let (i, state') = prng_int (length array) state
      in (case i of None \<Rightarrow> None | Some k \<Rightarrow> Some (array ! k), state'))"

text \<open>
  \<open>chance(p)\<close> is \<open>next() / 0x100000000 < p\<close>. The dividend is an integer below
  \<open>2 ^ 32\<close> and the divisor a power of two, so the IEEE quotient is exact, and a finite
  double \<open>p\<close> is a rational: the comparison is the comparison of rationals.
\<close>

definition prng_chance :: "rat \<Rightarrow> u32 \<Rightarrow> bool \<times> u32" where
  "prng_chance p state =
     (let (r, state') = prng_next state
      in (of_nat (unat r) / 4294967296 < p, state'))"

text \<open>The state after \<open>n\<close> calls of \<open>next()\<close>.\<close>

primrec prng_draws :: "nat \<Rightarrow> u32 \<Rightarrow> u32" where
  "prng_draws 0 state = state"
| "prng_draws (Suc n) state = prng_draws n (snd (prng_next state))"

section \<open>Strings\<close>

text \<open>
  JavaScript strings are sequences of UTF-16 code units. The colour strings and palette
  names are HOL strings, the strings whose code units are below 256: lists of the 8-bit
  \<open>char\<close>. On them \<open>String.prototype.trim\<close> removes the code units 9 to 13, 32 and
  160 from both ends.
\<close>

definition isWhiteSpace :: "char \<Rightarrow> bool" where
  "isWhiteSpace c = ((of_char c :: nat) \<in> {9, 10, 11, 12, 13, 32, 160})"

definition trim :: "string \<Rightarrow> string" where
  "trim s = rev (dropWhile isWhiteSpace (rev (dropWhile isWhiteSpace s)))"

section \<open>Seed derivation (emailToSeed)\<close>

text \<open>
  The e-mail address and the salt are arbitrary strings: lists of 16-bit code units,
  which \<open>charCodeAt\<close> reads as numbers. \<open>utf16\<close> writes a string of code units below
  256 in this form.
\<close>

type_synonym code_unit = "16 word"

definition utf16 :: "string \<Rightarrow> code_unit list" where
  "utf16 s = map (\<lambda>c. of_nat (of_char c)) s"

text \<open>
  \<open>String.prototype.trim\<close> removes from both ends the code units of WhiteSpace and
  LineTerminator of ECMAScript: TAB, LF, VT, FF, CR, the space, the no-break space,
  U+1680, U+2000 to U+200A, U+2028, U+2029, U+202F, U+205F, U+3000 and U+FEFF.
\<close>

definition isWhiteSpace_unit :: "code_unit \<Rightarrow> bool" where
  "isWhiteSpace_unit c =
     (let n = unat c
      in n \<in> {0x09, 0x0A, 0x0B, 0x0C, 0x0D, 0x20, 0xA0, 0x1680, 0x2028, 0x2029, 0x202F,
               0x205F, 0x3000, 0xFEFF}
         \<or> (0x2000 \<le> n \<and> n \<le> 0x200A))"

definition trim_units :: "code_unit list \<Rightarrow> code_unit list" where
  "trim_units s = rev (dropWhile isWhiteSpace_unit (rev (dropWhile isWhiteSpace_unit s)))"

text \<open>
  \<open>String.prototype.toLowerCase\<close> applies the case mapping of the Unicode tables of the
  host, which is not a map of single code units everywhere (U+0130 becomes two code
  units, U+03A3 depends on its position). On a string whose code units are all below 256
  it is one: A to Z and the capitals U+00C0 to U+00DE (but the sign U+00D7) move up by 32,
  every other code unit stays. The theory holds this part of the mapping and gives
  \<open>None\<close>, no value, for a string with a code unit from 256 on: nothing is stated about
  the seed of such an address.
\<close>

definition latin1 :: "code_unit \<Rightarrow> bool" where
  "latin1 c = (unat c < 256)"

definition toLowerCase_unit :: "code_unit \<Rightarrow> code_unit" where
  "toLowerCase_unit c =
     (let n = unat c
      in if (65 \<le> n \<and> n \<le> 90) \<or> (192 \<le> n \<and> n \<le> 222 \<and> n \<noteq> 215)
         then c + 32 else c)"

definition toLowerCase :: "code_unit list \<Rightarrow> code_unit list option" where
  "toLowerCase s = (if list_all latin1 s then Some (map toLowerCase_unit s) else None)"

text \<open>
  One round of the loop: \<open>hash = (hash << 5) - hash + char; hash = hash & hash\<close>.
  The shift and the final \<open>&\<close> are 32-bit operations and the sum in between is exact,
  so the round is arithmetic modulo \<open>2 ^ 32\<close>.
\<close>

definition hash_step :: "u32 \<Rightarrow> code_unit \<Rightarrow> u32" where
  "hash_step hash c = push_bit 5 hash - hash + of_nat (unat c)"

text \<open>
  \<open>emailToSeed\<close>: the address trimmed and lowercased, the salt appended as it is, the
  rounds over every code unit, and \<open>Math.abs\<close> of the signed 32-bit hash, a value in
  \<open>[0, 2 ^ 31]\<close>.
\<close>

definition emailToSeed :: "code_unit list \<Rightarrow> code_unit list \<Rightarrow> int option" where
  "emailToSeed email salt =
     (case toLowerCase (trim_units email) of
        None \<Rightarrow> None
      | Some lowered \<Rightarrow>
          (let normalized = lowered @ salt;
               hash = foldl hash_step 0 normalized
           in Some \<bar>sint hash\<bar>))"

text \<open>
  A change of letter case that keeps the length of the string: a code unit stays, or a
  capital of A to Z, U+00C0 to U+00D6 and U+00D8 to U+00DE is replaced by its small
  letter, 32 further, or the small letter by the capital.
\<close>

definition capital :: "code_unit \<Rightarrow> bool" where
  "capital c =
     (let n = unat c
      in (65 \<le> n \<and> n \<le> 90) \<or> (192 \<le> n \<and> n \<le> 214) \<or> (216 \<le> n \<and> n \<le> 222))"

definition case_changed :: "code_unit \<Rightarrow> code_unit \<Rightarrow> bool" where
  "case_changed a b = (a = b \<or> (capital a \<and> b = a + 32) \<or> (capital b \<and> a = b + 32))"

section \<open>Palette registry\<close>

record Palette =
  name :: string
  colors :: "string list"
  skin :: "string list"
  hair :: "string list"
  eyes :: "string list"
  clothes :: "string list"
  accent :: "string list"

definition palette_nes :: Palette where
  "palette_nes = \<lparr>
     name = ''NES'',
     colors = [''#000000'', ''#FFFFFF'', ''#880000'', ''#AAFFEE'', ''#CC44CC'', ''#00CC55'',
               ''#0000AA'', ''#EEEE77'', ''#DD8855'', ''#664400'', ''#FF7777'', ''#333333'',
               ''#777777'', ''#AAFF66'', ''#0088FF'', ''#BBBBBB''],
     skin = [''#FFDBAC'', ''#F1C27D'', ''#E0AC69'', ''#C68642'', ''#8D5524'', ''#654321''],
     hair = [''#000000'', ''#654321'', ''#8D5524'', ''#D2691E'', ''#DAA520'', ''#FFFFFF''],
     eyes = [''#000000'', ''#654321'', ''#0000AA'', ''#00CC55'', ''#777777''],
     clothes = [''#880000'', ''#0000AA'', ''#00CC55'', ''#CC44CC'', ''#333333''],
     accent = [''#FFFFFF'', ''#EEEE77'', ''#AAFFEE'', ''#FF7777'']\<rparr>"

definition palette_gameboy :: Palette where
  "palette_gameboy = \<lparr>
     name = ''Game Boy'',
     colors = [''#0F380F'', ''#306230'', ''#8BAC0F'', ''#9BBD0F''],
     skin = [''#9BBD0F'', ''#8BAC0F''],
     hair = [''#0F380F'', ''#306230''],
     eyes = [''#0F380F''],
     clothes = [''#306230'', ''#0F380F''],
     accent = [''#9BBD0F'', ''#8BAC0F'']\<rparr>"

definition palette_pastel :: Palette where
  "palette_pastel = \<lparr>
     name = ''Pastel'',
     colors = [''#FFB3BA'', ''#FFDFBA'', ''#FFFFBA'', ''#BAFFC9'', ''#BAE1FF'', ''#E1BAFF'',
               ''#FFBAE1'', ''#C9BAFF''],
     skin = [''#FFDFBA'', ''#FFB3BA'', ''#FFFFBA''],
     hair = [''#E1BAFF'', ''#C9BAFF'', ''#FFBAE1'', ''#BAE1FF''],
     eyes = [''#BAE1FF'', ''#BAFFC9'', ''#E1BAFF''],
     clothes = [''#FFB3BA'', ''#BAFFC9'', ''#C9BAFF'', ''#FFBAE1''],
     accent = [''#FFFFBA'', ''#BAFFC9'', ''#BAE1FF'', ''#FFBAE1'']\<rparr>"

text \<open>The registry \<open>palettes\<close>, an object literal: its own properties in source order.\<close>

definition palettes :: "(string \<times> Palette) list" where
  "palettes = [(''nes'', palette_nes), (''gameboy'', palette_gameboy),
               (''pastel'', palette_pastel)]"

text \<open>
  \<open>Array.prototype.indexOf\<close> on an array of strings: the first position holding the
  searched value, \<open>-1\<close> when there is none. The searched value is an array read that
  may be \<open>undefined\<close> (\<open>None\<close>), which no string equals.
\<close>

fun indexOf_from :: "int \<Rightarrow> string list \<Rightarrow> string \<Rightarrow> int" where
  "indexOf_from i [] v = -1"
| "indexOf_from i (c # cs) v = (if c = v then i else indexOf_from (i + 1) cs v)"

definition indexOf :: "string list \<Rightarrow> string option \<Rightarrow> int" where
  "indexOf cs v = (case v of None \<Rightarrow> -1 | Some s \<Rightarrow> indexOf_from 0 cs s)"

text \<open>An array read \<open>xs[i]\<close> at a non-negative integer index: \<open>undefined\<close> out of range.\<close>

definition elem_at :: "'a list \<Rightarrow> nat \<Rightarrow> 'a option" where
  "elem_at xs i = (if i < length xs then Some (xs ! i) else None)"

text \<open>
  The property the data model asks of a palette: each entry of the five role lists is
  one of the flat colours.
\<close>

definition role_in_colors :: "Palette \<Rightarrow> string list \<Rightarrow> bool" where
  "role_in_colors p role = list_all (\<lambda>c. c \<in> set (colors p)) role"

definition roles_in_colors :: "Palette \<Rightarrow> bool" where
  "roles_in_colors p =
     (role_in_colors p (skin p) \<and> role_in_colors p (hair p) \<and> role_in_colors p (eyes p)
      \<and> role_in_colors p (clothes p) \<and> role_in_colors p (accent p))"

section \<open>Raster buffer (class PixelBuffer)\<close>

text \<open>
  What the model can raise. \<open>Error\<close>: an explicit \<open>throw new Error\<close>.
  \<open>TypeError\<close>: a property read on \<open>undefined\<close>.
  \<open>RangeError\<close>: an allocation or an integer write that Node refuses. \<open>OffGrid\<close>: an
  indexed access \<open>this.buffer[y][x]\<close> outside the rows and cells the constructor
  allocated. JavaScript throws a TypeError there when the row is missing, and extends
  the row or reads \<open>undefined\<close> when only the cell is; the field is private and every
  method keeps the grid's shape (\<open>wf_buffer\<close> below), so such a grid does not arise
  and the model stops at the access instead of following it.
\<close>

datatype error = Error | TypeError | RangeError | OffGrid

text \<open>A cell is a colour index, \<open>-1\<close> for transparent; the grid is a list of rows.\<close>

record PixelBuffer =
  width :: nat
  height :: nat
  buffer :: "int list list"

definition PixelBuffer_new :: "nat \<Rightarrow> nat \<Rightarrow> PixelBuffer" where
  "PixelBuffer_new w h = \<lparr>width = w, height = h, buffer = replicate h (replicate w (-1))\<rparr>"

text \<open>The indexed read \<open>this.buffer[y][x]\<close> and write \<open>this.buffer[y][x] = v\<close>.\<close>

definition cell_read :: "int list list \<Rightarrow> nat \<Rightarrow> nat \<Rightarrow> error + int" where
  "cell_read g y x =
     (if y < length g \<and> x < length (g ! y) then Inr (g ! y ! x) else Inl OffGrid)"

definition cell_write :: "int list list \<Rightarrow> nat \<Rightarrow> nat \<Rightarrow> int \<Rightarrow> error + int list list" where
  "cell_write g y x v =
     (if y < length g \<and> x < length (g ! y) then Inr (g[y := (g ! y)[x := v]])
      else Inl OffGrid)"

definition in_bounds :: "int \<Rightarrow> int \<Rightarrow> PixelBuffer \<Rightarrow> bool" where
  "in_bounds x y b = (x \<ge> 0 \<and> x < int (width b) \<and> y \<ge> 0 \<and> y < int (height b))"

definition setPixel :: "int \<Rightarrow> int \<Rightarrow> int \<Rightarrow> PixelBuffer \<Rightarrow> error + PixelBuffer" where
  "setPixel x y colorIndex b =
     (if x \<ge> 0 \<and> x < int (width b) \<and> y \<ge> 0 \<and> y < int (height b)
      then (case cell_write (buffer b) (nat y) (nat x) colorIndex of
              Inl e \<Rightarrow> Inl e
            | Inr g \<Rightarrow> Inr (b\<lparr>buffer := g\<rparr>))
      else Inr b)"

definition getPixel :: "int \<Rightarrow> int \<Rightarrow> PixelBuffer \<Rightarrow> error + int" where
  "getPixel x y b =
     (if x \<ge> 0 \<and> x < int (width b) \<and> y \<ge> 0 \<and> y < int (height b)
      then cell_read (buffer b) (nat y) (nat x)
      else Inr (-1))"

text \<open>
  A counting \<open>for\<close> loop over the values of its index, the body threading the state;
  the first error leaves the loop, as the exception would.
\<close>

primrec forE :: "'i list \<Rightarrow> ('i \<Rightarrow> 's \<Rightarrow> error + 's) \<Rightarrow> 's \<Rightarrow> error + 's" where
  "forE [] body s = Inr s"
| "forE (i # rest) body s =
     (case body i s of Inl e \<Rightarrow> Inl e | Inr s' \<Rightarrow> forE rest body s')"

text \<open>
  Sizes, radii and coordinates are JavaScript numbers; the engine passes integers, and
  the model takes \<open>int\<close>. \<open>for (let d = 0; d < n; d++)\<close> runs over \<open>[0..n - 1]\<close>,
  which is empty for \<open>n \<le> 0\<close>.
\<close>

definition fillRect :: "int \<Rightarrow> int \<Rightarrow> int \<Rightarrow> int \<Rightarrow> int \<Rightarrow> PixelBuffer \<Rightarrow> error + PixelBuffer" where
  "fillRect x y w h colorIndex =
     forE [0..h - 1] (\<lambda>dy. forE [0..w - 1] (\<lambda>dx. setPixel (x + dx) (y + dy) colorIndex))"

definition fillCircle :: "int \<Rightarrow> int \<Rightarrow> int \<Rightarrow> int \<Rightarrow> PixelBuffer \<Rightarrow> error + PixelBuffer" where
  "fillCircle centerX centerY radius colorIndex =
     forE [- radius..radius] (\<lambda>y. forE [- radius..radius] (\<lambda>x b.
       if x * x + y * y \<le> radius * radius
       then setPixel (centerX + x) (centerY + y) colorIndex b else Inr b))"

text \<open>
  \<open>drawLine\<close> is a \<open>while (true)\<close> loop left by a \<open>break\<close> when the end point is
  reached; \<open>None\<close> is a loop that never gets there.
\<close>

partial_function (option) drawLine_loop ::
  "int \<Rightarrow> int \<Rightarrow> int \<Rightarrow> int \<Rightarrow> int \<Rightarrow> int \<Rightarrow> int \<Rightarrow> int \<Rightarrow> int \<Rightarrow> int \<Rightarrow> PixelBuffer
     \<Rightarrow> (error + PixelBuffer) option" where
  "drawLine_loop x1 y1 dx dy sx sy colorIndex x y err b =
     (case setPixel x y colorIndex b of
        Inl e \<Rightarrow> Some (Inl e)
      | Inr b' \<Rightarrow>
          if x = x1 \<and> y = y1 then Some (Inr b')
          else
            let e2 = 2 * err;
                err1 = (if e2 > - dy then err - dy else err);
                x' = (if e2 > - dy then x + sx else x);
                err2 = (if e2 < dx then err1 + dx else err1);
                y' = (if e2 < dx then y + sy else y)
            in drawLine_loop x1 y1 dx dy sx sy colorIndex x' y' err2 b')"

definition drawLine :: "int \<Rightarrow> int \<Rightarrow> int \<Rightarrow> int \<Rightarrow> int \<Rightarrow> PixelBuffer \<Rightarrow> (error + PixelBuffer) option" where
  "drawLine x0 y0 x1 y1 colorIndex b =
     (let dx = \<bar>x1 - x0\<bar>;
          dy = \<bar>y1 - y0\<bar>;
          sx = (if x0 < x1 then 1 else -1);
          sy = (if y0 < y1 then 1 else -1);
          err = dx - dy
      in drawLine_loop x1 y1 dx dy sx sy colorIndex x0 y0 err b)"

declare drawLine_loop.simps [code]

definition mirrorVertically :: "PixelBuffer \<Rightarrow> error + PixelBuffer" where
  "mirrorVertically b0 =
     (let midX = width b0 div 2
      in forE [0..<height b0] (\<lambda>y. forE [0..<midX] (\<lambda>x b.
           let mirrorX = width b - 1 - x
           in case cell_read (buffer b) y x of
                Inl e \<Rightarrow> Inl e
              | Inr v \<Rightarrow> (case cell_write (buffer b) y mirrorX v of
                           Inl e \<Rightarrow> Inl e
                         | Inr g \<Rightarrow> Inr (b\<lparr>buffer := g\<rparr>)))) b0)"

text \<open>\<open>getData\<close> copies every row; with values instead of references the copy is the grid.\<close>

definition getData :: "PixelBuffer \<Rightarrow> int list list" where
  "getData b = map (\<lambda>row. row) (buffer b)"

definition clear :: "PixelBuffer \<Rightarrow> error + PixelBuffer" where
  "clear b0 =
     forE [0..<height b0] (\<lambda>y. forE [0..<width b0] (\<lambda>x b.
       case cell_write (buffer b) y x (-1) of
         Inl e \<Rightarrow> Inl e
       | Inr g \<Rightarrow> Inr (b\<lparr>buffer := g\<rparr>))) b0"

text \<open>
  The shape the constructor builds and every method keeps: \<open>height\<close> rows of
  \<open>width\<close> cells.
\<close>

definition wf_buffer :: "PixelBuffer \<Rightarrow> bool" where
  "wf_buffer b = (length (buffer b) = height b \<and> list_all (\<lambda>row. length row = width b) (buffer b))"

text \<open>
  Closed forms for the proofs about \<open>mirrorVertically\<close>: a row after the first \<open>k\<close>
  columns were copied over, and a grid after the first \<open>n\<close> rows were mirrored.
\<close>

definition mirror_row :: "nat \<Rightarrow> nat \<Rightarrow> int list \<Rightarrow> int list" where
  "mirror_row w k row = map (\<lambda>j. if w - k \<le> j then row ! (w - 1 - j) else row ! j) [0..<w]"

definition mirror_rows :: "nat \<Rightarrow> nat \<Rightarrow> int list list \<Rightarrow> int list list" where
  "mirror_rows w n g =
     map (\<lambda>y. if y < n then mirror_row w (w div 2) (g ! y) else g ! y) [0..<length g]"

text \<open>A one-row buffer with five distinct cells, for the concrete instances.\<close>

definition sample_row :: PixelBuffer where
  "sample_row = \<lparr>width = 5, height = 1, buffer = [[1, 2, 3, 4, 5]]\<rparr>"

section \<open>Feature selection and drawing engine (class AvatarEngine)\<close>

subsection \<open>Palette lookup\<close>

text \<open>
  \<open>getPalette(name)\<close> is \<open>palettes[name] || palettes.nes\<close>. The registry is a plain
  object, so a name it does not hold itself but \<open>Object.prototype\<close> does
  (\<open>constructor\<close>, \<open>toString\<close>, ...) reads an inherited member: a function or object,
  truthy, with none of a palette's fields. That result is \<open>None\<close>; every other unknown
  name falls back to \<open>nes\<close>.
\<close>

definition object_prototype_keys :: "string list" where
  "object_prototype_keys =
     [''constructor'', ''__defineGetter__'', ''__defineSetter__'', ''hasOwnProperty'',
      ''__lookupGetter__'', ''__lookupSetter__'', ''isPrototypeOf'', ''propertyIsEnumerable'',
      ''toString'', ''valueOf'', ''__proto__'', ''toLocaleString'']"

definition getPalette :: "string \<Rightarrow> Palette option" where
  "getPalette nm =
     (case map_of palettes nm of
        Some p \<Rightarrow> Some p
      | None \<Rightarrow> if nm \<in> set object_prototype_keys then None else Some palette_nes)"

subsection \<open>Features\<close>

datatype JawShape = JawRound | JawSquare | JawPointed
datatype EyeShape = EyeNormal | EyeSmile | EyeWink | EyeClosed | EyeWide | EyeSurprised
datatype BrowShape = BrowThin | BrowThick | BrowAngry | BrowCurved
datatype NoseShape = NoseDot | NoseLine | NoseT
datatype MouthShape = MouthNeutral | MouthSmile | MouthTeeth | MouthOpen | MouthWow | MouthFlat
datatype HairStyle =
  HairShort | HairMedium | HairLong | HairBald | HairBun | HairAfro | HairUndercut
datatype FacialHair = Stubble | Mustache | Goatee
datatype Glasses = GlassesRound | GlassesSquare
datatype Hat = Cap | Beanie
datatype ClothesStyle = Collar | Hoodie | Tshirt
datatype Mood = Neutral | Smile | Wink | Surprised | Angry
datatype Gender = Auto | Androgynous | Masc | Fem

text \<open>
  A field filled by \<open>pick\<close> holds what \<open>pick\<close> returned, \<open>None\<close> being \<open>undefined\<close>;
  an index filled by \<open>int\<close> holds a number, \<open>None\<close> being NaN. The optional fields
  \<open>facialHair\<close>, \<open>glasses\<close> and \<open>hat\<close> are \<open>undefined\<close> when absent.
\<close>

record Accessories =
  glasses :: "Glasses option"
  earrings :: bool
  hat :: "Hat option"

record AvatarFeatures =
  skinTone :: "nat option"
  jawShape :: "JawShape option"
  eyeShape :: "EyeShape option"
  browShape :: "BrowShape option"
  noseShape :: "NoseShape option"
  mouthShape :: "MouthShape option"
  hairStyle :: "HairStyle option"
  hairColor :: "nat option"
  facialHair :: "FacialHair option"
  accessories :: Accessories
  clothesStyle :: "ClothesStyle option"
  clothesColor :: "nat option"

text \<open>
  The object literal of \<open>generateFeatures\<close> evaluates its properties in source order,
  each call advancing the generator. The probabilities are written as the decimal
  fractions of the source; \<open>chance_double_literals\<close> shows that the doubles those
  literals denote give the same answers.
\<close>

definition generateFeatures :: "Palette \<Rightarrow> u32 \<Rightarrow> AvatarFeatures \<times> u32" where
  "generateFeatures p s0 =
     (let (skinTone_v, s1) = prng_int (length (skin p)) s0;
          (jawShape_v, s2) = prng_pick [JawRound, JawSquare, JawPointed] s1;
          (eyeShape_v, s3) =
             prng_pick [EyeNormal, EyeSmile, EyeWink, EyeClosed, EyeWide, EyeSurprised] s2;
          (browShape_v, s4) = prng_pick [BrowThin, BrowThick, BrowAngry, BrowCurved] s3;
          (noseShape_v, s5) = prng_pick [NoseDot, NoseLine, NoseT] s4;
          (mouthShape_v, s6) =
             prng_pick [MouthNeutral, MouthSmile, MouthTeeth, MouthOpen, MouthWow, MouthFlat] s5;
          (hairStyle_v, s7) =
             prng_pick [HairShort, HairMedium, HairLong, HairBald, HairBun, HairAfro,
                        HairUndercut] s6;
          (hairColor_v, s8) = prng_int (length (hair p)) s7;
          (hasFacialHair, s9) = prng_chance (3 / 10) s8;
          (facialHair_v, s10) =
             (if hasFacialHair then prng_pick [Stubble, Mustache, Goatee] s9 else (None, s9));
          (hasGlasses, s11) = prng_chance (1 / 4) s10;
          (glasses_v, s12) =
             (if hasGlasses then prng_pick [GlassesRound, GlassesSquare] s11 else (None, s11));
          (earrings_v, s13) = prng_chance (3 / 20) s12;
          (hasHat, s14) = prng_chance (1 / 5) s13;
          (hat_v, s15) = (if hasHat then prng_pick [Cap, Beanie] s14 else (None, s14));
          (clothesStyle_v, s16) = prng_pick [Collar, Hoodie, Tshirt] s15;
          (clothesColor_v, s17) = prng_int (length (clothes p)) s16
      in (\<lparr>skinTone = skinTone_v, jawShape = jawShape_v, eyeShape = eyeShape_v,
           browShape = browShape_v, noseShape = noseShape_v, mouthShape = mouthShape_v,
           hairStyle = hairStyle_v, hairColor = hairColor_v, facialHair = facialHair_v,
           accessories = \<lparr>glasses = glasses_v, earrings = earrings_v, hat = hat_v\<rparr>,
           clothesStyle = clothesStyle_v, clothesColor = clothesColor_v\<rparr>, s17))"

subsection \<open>The feature selection as the specification words it\<close>

text \<open>
  The \<open>n\<close>-th value the generator returns, counting from 0, and the three ways a value
  is used: an index into a list of a given length, a choice among the entries of a list,
  and a yes or no of a given probability.
\<close>

definition raw_draw :: "u32 \<Rightarrow> nat \<Rightarrow> nat" where
  "raw_draw s n = unat (fst (prng_next (prng_draws n s)))"

definition as_index :: "nat \<Rightarrow> nat \<Rightarrow> nat option" where
  "as_index len r = (if len = 0 then None else Some (r mod len))"

definition as_choice :: "'a list \<Rightarrow> nat \<Rightarrow> 'a option" where
  "as_choice xs r = (if xs = [] then None else Some (xs ! (r mod length xs)))"

definition as_chance :: "rat \<Rightarrow> nat \<Rightarrow> bool" where
  "as_chance p r = (of_nat r / 4294967296 < p)"

text \<open>
  The draws in the order of the specification: skin-tone index, jaw (3-way), eyes
  (6-way), brows (4-way), nose (3-way), mouth (6-way), hair style (7-way), hair-colour
  index, facial-hair presence (30 percent) and then its kind (3-way) only if present,
  glasses presence (25 percent) and kind (2-way) only if present, earrings (15 percent),
  hat presence (20 percent) and kind (2-way) only if present, clothes style (3-way),
  clothes-colour index. \<open>g\<close>, \<open>e\<close>, \<open>h\<close> and \<open>c\<close> are the positions of the draws
  whose place depends on the earlier presence draws.
\<close>

definition spec_features :: "Palette \<Rightarrow> u32 \<Rightarrow> AvatarFeatures" where
  "spec_features p s =
     (let r = raw_draw s;
          facial = as_chance (3 / 10) (r 8);
          g = (if facial then 10 else 9);
          specs = as_chance (1 / 4) (r g);
          e = (if specs then g + 2 else g + 1);
          h = e + 1;
          hatted = as_chance (1 / 5) (r h);
          c = (if hatted then h + 2 else h + 1)
      in \<lparr>skinTone = as_index (length (skin p)) (r 0),
          jawShape = as_choice [JawRound, JawSquare, JawPointed] (r 1),
          eyeShape =
            as_choice [EyeNormal, EyeSmile, EyeWink, EyeClosed, EyeWide, EyeSurprised] (r 2),
          browShape = as_choice [BrowThin, BrowThick, BrowAngry, BrowCurved] (r 3),
          noseShape = as_choice [NoseDot, NoseLine, NoseT] (r 4),
          mouthShape =
            as_choice [MouthNeutral, MouthSmile, MouthTeeth, MouthOpen, MouthWow, MouthFlat]
              (r 5),
          hairStyle =
            as_choice [HairShort, HairMedium, HairLong, HairBald, HairBun, HairAfro,
                       HairUndercut] (r 6),
          hairColor = as_index (length (hair p)) (r 7),
          facialHair = (if facial then as_choice [Stubble, Mustache, Goatee] (r 9) else None),
          accessories =
            \<lparr>glasses =
               (if specs then as_choice [GlassesRound, GlassesSquare] (r (g + 1)) else None),
             earrings = as_chance (3 / 20) (r e),
             hat = (if hatted then as_choice [Cap, Beanie] (r (h + 1)) else None)\<rparr>,
          clothesStyle = as_choice [Collar, Hoodie, Tshirt] (r c),
          clothesColor = as_index (length (clothes p)) (r (c + 1))\<rparr>)"

text \<open>The number of draws the selection consumes: 14, and one more per feature present.\<close>

definition spec_draw_count :: "u32 \<Rightarrow> nat" where
  "spec_draw_count s =
     (let r = raw_draw s;
          facial = as_chance (3 / 10) (r 8);
          g = (if facial then 10 else 9);
          specs = as_chance (1 / 4) (r g);
          e = (if specs then g + 2 else g + 1);
          h = e + 1;
          hatted = as_chance (1 / 5) (r h);
          c = (if hatted then h + 2 else h + 1)
      in c + 2)"

subsection \<open>Running the engine\<close>

text \<open>
  A method of the engine either does not return (\<open>None\<close>, possible only through the
  loop of \<open>drawLine\<close>), throws (\<open>Some (Inl e)\<close>) or returns (\<open>Some (Inr x)\<close>).
\<close>

type_synonym 'a run = "(error + 'a) option"

definition ok :: "'a \<Rightarrow> 'a run" where
  "ok a = Some (Inr a)"

definition bind_run :: "'a run \<Rightarrow> ('a \<Rightarrow> 'b run) \<Rightarrow> 'b run" where
  "bind_run m f = (case m of None \<Rightarrow> None | Some (Inl e) \<Rightarrow> Some (Inl e) | Some (Inr a) \<Rightarrow> f a)"

text \<open>A call that always returns or throws.\<close>

definition ret :: "('s \<Rightarrow> error + 's) \<Rightarrow> 's \<Rightarrow> 's run" where
  "ret f s = Some (f s)"

text \<open>Statements one after the other, and a counting loop, on a threaded state.\<close>

primrec seq :: "('s \<Rightarrow> 's run) list \<Rightarrow> 's \<Rightarrow> 's run" where
  "seq [] s = ok s"
| "seq (c # cs) s = bind_run (c s) (seq cs)"

primrec forR :: "'i list \<Rightarrow> ('i \<Rightarrow> 's \<Rightarrow> 's run) \<Rightarrow> 's \<Rightarrow> 's run" where
  "forR [] body s = ok s"
| "forR (i # rest) body s = bind_run (body i s) (forR rest body)"

record AvatarEngine =
  eng_prng :: u32
  eng_buffer :: PixelBuffer
  eng_palette :: Palette
  eng_features :: AvatarFeatures

text \<open>
  The constructor. Where \<open>getPalette\<close> returned an inherited member,
  \<open>this.palette.skin\<close> is \<open>undefined\<close> and reading its \<open>length\<close> throws.
\<close>

definition AvatarEngine_new :: "int \<Rightarrow> string \<Rightarrow> error + AvatarEngine" where
  "AvatarEngine_new seed paletteName =
     (case getPalette paletteName of
        None \<Rightarrow> Inl TypeError
      | Some p \<Rightarrow>
          (let (f, s) = generateFeatures p (XorShift32 seed)
           in Inr \<lparr>eng_prng = s, eng_buffer = PixelBuffer_new 16 16, eng_palette = p,
                   eng_features = f\<rparr>))"

text \<open>Drawing calls on \<open>this.buffer\<close>, in order.\<close>

definition draw :: "(PixelBuffer \<Rightarrow> PixelBuffer run) list \<Rightarrow> AvatarEngine \<Rightarrow> AvatarEngine run" where
  "draw cs e = bind_run (seq cs (eng_buffer e)) (\<lambda>b. ok (e\<lparr>eng_buffer := b\<rparr>))"

text \<open>
  \<open>this.palette.colors.indexOf(role[i])\<close>: the position in the flat list of the
  \<open>i\<close>-th colour of a role list, \<open>i\<close> a number.
\<close>

definition role_index :: "Palette \<Rightarrow> string list \<Rightarrow> nat option \<Rightarrow> int" where
  "role_index p role i =
     indexOf (colors p) (case i of None \<Rightarrow> None | Some k \<Rightarrow> elem_at role k)"

text \<open>
  \<open>setPixel(x0 + int(..), y0 + int(..), c)\<close>: a NaN coordinate fails the bounds test of
  \<open>setPixel\<close>, which then does nothing.
\<close>

definition setPixel_at ::
  "int \<Rightarrow> nat option \<Rightarrow> int \<Rightarrow> nat option \<Rightarrow> int \<Rightarrow> PixelBuffer \<Rightarrow> error + PixelBuffer" where
  "setPixel_at x0 i y0 j colorIndex b =
     (case (i, j) of
        (Some a, Some k) \<Rightarrow> setPixel (x0 + int a) (y0 + int k) colorIndex b
      | _ \<Rightarrow> Inr b)"

subsection \<open>Mood and gender bias\<close>

definition applyMood :: "Mood \<Rightarrow> AvatarEngine \<Rightarrow> AvatarEngine" where
  "applyMood mood e =
     (let f = eng_features e; s = eng_prng e
      in case mood of
           Neutral \<Rightarrow> e
         | Smile \<Rightarrow>
             (let (ey, s1) = prng_pick [EyeNormal, EyeSmile] s
              in e\<lparr>eng_features := f\<lparr>mouthShape := Some MouthSmile, eyeShape := ey\<rparr>,
                   eng_prng := s1\<rparr>)
         | Wink \<Rightarrow>
             (let (mo, s1) = prng_pick [MouthSmile, MouthNeutral] s
              in e\<lparr>eng_features := f\<lparr>eyeShape := Some EyeWink, mouthShape := mo\<rparr>,
                   eng_prng := s1\<rparr>)
         | Surprised \<Rightarrow>
             (let (br, s1) = prng_pick [BrowThin, BrowCurved] s
              in e\<lparr>eng_features :=
                     f\<lparr>eyeShape := Some EyeWide, mouthShape := Some MouthOpen, browShape := br\<rparr>,
                   eng_prng := s1\<rparr>)
         | Angry \<Rightarrow>
             (let (mo, s1) = prng_pick [MouthFlat, MouthNeutral] s;
                  (ey, s2) = prng_pick [EyeNormal, EyeClosed] s1
              in e\<lparr>eng_features :=
                     f\<lparr>browShape := Some BrowAngry, mouthShape := mo, eyeShape := ey\<rparr>,
                   eng_prng := s2\<rparr>))"

definition applyGender :: "Gender \<Rightarrow> AvatarEngine \<Rightarrow> AvatarEngine" where
  "applyGender gender e =
     (let f = eng_features e; s = eng_prng e
      in if gender = Fem then
           (let (longer, s1) = prng_chance (7 / 10) s;
                (hs, s2) = (if longer then prng_pick [HairMedium, HairLong, HairBun] s1
                            else (hairStyle f, s1));
                (ear, s3) = prng_chance (2 / 5) s2
            in e\<lparr>eng_features :=
                   f\<lparr>hairStyle := hs, accessories := (accessories f)\<lparr>earrings := ear\<rparr>\<rparr>,
                 eng_prng := s3\<rparr>)
         else if gender = Masc then
           (let (shorter, s1) = prng_chance (3 / 5) s;
                (hs, s2) = (if shorter then prng_pick [HairShort, HairUndercut, HairBald] s1
                            else (hairStyle f, s1));
                (bearded, s3) = prng_chance (1 / 2) s2;
                (fh, s4) = (if bearded then prng_pick [Stubble, Mustache, Goatee] s3
                            else (None, s3))
            in e\<lparr>eng_features := f\<lparr>hairStyle := hs, facialHair := fh\<rparr>, eng_prng := s4\<rparr>)
         else e)"

subsection \<open>Layers\<close>

text \<open>
  A \<open>switch\<close> over a feature runs the case of its value and nothing when no case
  matches, as for \<open>undefined\<close>.
\<close>

definition drawHead :: "AvatarEngine \<Rightarrow> AvatarEngine run" where
  "drawHead e =
     (let p = eng_palette e; f = eng_features e;
          skinIndex = role_index p (skin p) (skinTone f)
      in draw (case jawShape f of
                 Some JawRound \<Rightarrow> [ret (fillCircle 8 7 5 skinIndex)]
               | Some JawSquare \<Rightarrow> [ret (fillRect 4 3 8 8 skinIndex)]
               | Some JawPointed \<Rightarrow>
                   [ret (fillCircle 8 6 5 skinIndex), ret (fillRect 6 10 4 1 skinIndex)]
               | None \<Rightarrow> []) e)"

definition drawNeck :: "AvatarEngine \<Rightarrow> AvatarEngine run" where
  "drawNeck e =
     (let p = eng_palette e; f = eng_features e;
          skinIndex = role_index p (skin p) (skinTone f)
      in draw [ret (fillRect 6 11 4 2 skinIndex)] e)"

definition drawShoulders :: "AvatarEngine \<Rightarrow> AvatarEngine run" where
  "drawShoulders e =
     (let p = eng_palette e; f = eng_features e;
          skinIndex = role_index p (skin p) (skinTone f)
      in draw [ret (fillRect 2 13 4 3 skinIndex), ret (fillRect 10 13 4 3 skinIndex)] e)"

definition drawShirt :: "AvatarEngine \<Rightarrow> AvatarEngine run" where
  "drawShirt e =
     (let p = eng_palette e; f = eng_features e;
          clothesColorIndex = role_index p (clothes p) (clothesColor f);
          accentColor = role_index p (accent p) (Some 0)
      in case clothesStyle f of
           Some Collar \<Rightarrow>
             draw [ret (fillRect 3 13 10 3 clothesColorIndex),
                   drawLine 6 12 9 12 accentColor,
                   ret (setPixel 7 13 accentColor),
                   ret (setPixel 8 14 accentColor)] e
         | Some Hoodie \<Rightarrow>
             draw [ret (fillRect 2 13 12 3 clothesColorIndex),
                   ret (setPixel 6 12 accentColor),
                   ret (setPixel 9 12 accentColor),
                   drawLine 5 15 10 15 accentColor] e
         | Some Tshirt \<Rightarrow>
             bind_run (draw [ret (fillRect 3 13 10 3 clothesColorIndex)] e) (\<lambda>e1.
               let (logo, s1) = prng_chance (3 / 10) (eng_prng e1);
                   e2 = e1\<lparr>eng_prng := s1\<rparr>
               in if logo
                  then draw [ret (setPixel 8 14 accentColor),
                             ret (setPixel 7 15 accentColor),
                             ret (setPixel 9 15 accentColor)] e2
                  else ok e2)
         | None \<Rightarrow> ok e)"

definition drawEyes :: "AvatarEngine \<Rightarrow> AvatarEngine run" where
  "drawEyes e =
     (let p = eng_palette e; f = eng_features e;
          (i, s1) = prng_int (length (eyes p)) (eng_prng e);
          eyeColor = role_index p (eyes p) i;
          e1 = e\<lparr>eng_prng := s1\<rparr>;
          leftEyeX = 5; rightEyeX = 10; eyeY = 6
      in draw (case eyeShape f of
                 Some EyeNormal \<Rightarrow>
                   [ret (setPixel leftEyeX eyeY eyeColor), ret (setPixel rightEyeX eyeY eyeColor)]
               | Some EyeSmile \<Rightarrow>
                   [ret (setPixel leftEyeX (eyeY + 1) eyeColor),
                    ret (setPixel rightEyeX (eyeY + 1) eyeColor)]
               | Some EyeWink \<Rightarrow>
                   [ret (setPixel leftEyeX eyeY eyeColor),
                    drawLine (rightEyeX - 1) eyeY (rightEyeX + 1) eyeY eyeColor]
               | Some EyeClosed \<Rightarrow>
                   [drawLine (leftEyeX - 1) eyeY (leftEyeX + 1) eyeY eyeColor,
                    drawLine (rightEyeX - 1) eyeY (rightEyeX + 1) eyeY eyeColor]
               | Some EyeWide \<Rightarrow>
                   [ret (fillRect (leftEyeX - 1) eyeY 2 2 eyeColor),
                    ret (fillRect (rightEyeX - 1) eyeY 2 2 eyeColor)]
               | Some EyeSurprised \<Rightarrow>
                   [ret (fillCircle leftEyeX eyeY 1 eyeColor),
                    ret (fillCircle rightEyeX eyeY 1 eyeColor)]
               | None \<Rightarrow> []) e1)"

definition drawBrows :: "AvatarEngine \<Rightarrow> AvatarEngine run" where
  "drawBrows e =
     (let f = eng_features e;
          browColor = 0; leftBrowX = 5; rightBrowX = 10; browY = 4
      in draw (case browShape f of
                 Some BrowThin \<Rightarrow>
                   [ret (setPixel leftBrowX browY browColor),
                    ret (setPixel rightBrowX browY browColor)]
               | Some BrowThick \<Rightarrow>
                   [ret (fillRect (leftBrowX - 1) browY 2 1 browColor),
                    ret (fillRect (rightBrowX - 1) browY 2 1 browColor)]
               | Some BrowAngry \<Rightarrow>
                   [drawLine (leftBrowX - 1) (browY + 1) (leftBrowX + 1) (browY - 1) browColor,
                    drawLine (rightBrowX - 1) (browY - 1) (rightBrowX + 1) (browY + 1) browColor]
               | Some BrowCurved \<Rightarrow>
                   [ret (setPixel (leftBrowX - 1) browY browColor),
                    ret (setPixel leftBrowX (browY - 1) browColor),
                    ret (setPixel (leftBrowX + 1) browY browColor),
                    ret (setPixel (rightBrowX - 1) browY browColor),
                    ret (setPixel rightBrowX (browY - 1) browColor),
                    ret (setPixel (rightBrowX + 1) browY browColor)]
               | None \<Rightarrow> []) e)"

definition drawNose :: "AvatarEngine \<Rightarrow> AvatarEngine run" where
  "drawNose e =
     (let f = eng_features e;
          noseColor = 0; noseX = 8; noseY = 8
      in draw (case noseShape f of
                 Some NoseDot \<Rightarrow> [ret (setPixel noseX noseY noseColor)]
               | Some NoseLine \<Rightarrow> [drawLine noseX (noseY - 1) noseX (noseY + 1) noseColor]
               | Some NoseT \<Rightarrow>
                   [drawLine noseX (noseY - 1) noseX (noseY + 1) noseColor,
                    drawLine (noseX - 1) (noseY + 1) (noseX + 1) (noseY + 1) noseColor]
               | None \<Rightarrow> []) e)"

definition drawMouth :: "AvatarEngine \<Rightarrow> AvatarEngine run" where
  "drawMouth e =
     (let f = eng_features e;
          mouthColor = 0; mouthX = 8; mouthY = 11
      in draw (case mouthShape f of
                 Some MouthNeutral \<Rightarrow>
                   [drawLine (mouthX - 1) mouthY (mouthX + 1) mouthY mouthColor]
               | Some MouthSmile \<Rightarrow>
                   [ret (setPixel (mouthX - 1) mouthY mouthColor),
                    ret (setPixel mouthX (mouthY - 1) mouthColor),
                    ret (setPixel (mouthX + 1) mouthY mouthColor)]
               | Some MouthTeeth \<Rightarrow>
                   [drawLine (mouthX - 2) mouthY (mouthX + 2) mouthY mouthColor,
                    ret (setPixel mouthX (mouthY + 1) 1)]
               | Some MouthOpen \<Rightarrow> [ret (fillRect (mouthX - 1) mouthY 2 2 mouthColor)]
               | Some MouthWow \<Rightarrow> [ret (fillCircle mouthX mouthY 1 mouthColor)]
               | Some MouthFlat \<Rightarrow>
                   [drawLine (mouthX - 2) mouthY (mouthX + 2) mouthY mouthColor]
               | None \<Rightarrow> []) e)"

definition drawHair :: "AvatarEngine \<Rightarrow> AvatarEngine run" where
  "drawHair e =
     (let p = eng_palette e; f = eng_features e;
          hairColorIndex = role_index p (hair p) (hairColor f);
          hasHat = hat (accessories f);
          hairHeight = (if hasHat \<noteq> None then 2 else 3)
      in draw (case hairStyle f of
                 Some HairShort \<Rightarrow> [ret (fillRect 4 1 8 hairHeight hairColorIndex)]
               | Some HairMedium \<Rightarrow>
                   [ret (fillRect 3 1 10 (hairHeight + 1) hairColorIndex),
                    ret (fillRect 2 4 2 2 hairColorIndex),
                    ret (fillRect 12 4 2 2 hairColorIndex)]
               | Some HairLong \<Rightarrow>
                   [ret (fillRect 3 1 10 (hairHeight + 1) hairColorIndex),
                    ret (fillRect 1 4 3 4 hairColorIndex),
                    ret (fillRect 12 4 3 4 hairColorIndex)]
               | Some HairBald \<Rightarrow> []
               | Some HairBun \<Rightarrow>
                   [ret (fillRect 4 1 8 2 hairColorIndex),
                    ret (fillCircle 8 0 1 hairColorIndex)]
               | Some HairAfro \<Rightarrow> [ret (fillCircle 8 3 5 hairColorIndex)]
               | Some HairUndercut \<Rightarrow>
                   [ret (fillRect 5 1 6 3 hairColorIndex),
                    ret (fillRect 3 4 2 1 hairColorIndex),
                    ret (fillRect 11 4 2 1 hairColorIndex)]
               | None \<Rightarrow> []) e)"

text \<open>One round of the stubble loop: a chance, and on success two draws and a pixel.\<close>

definition stubble_round :: "int \<Rightarrow> AvatarEngine \<Rightarrow> AvatarEngine run" where
  "stubble_round hairColorIndex e =
     (let (grow, s1) = prng_chance (3 / 10) (eng_prng e)
      in if grow then
           (let (i, s2) = prng_int 8 s1;
                (j, s3) = prng_int 2 s2
            in draw [ret (setPixel_at 4 i 12 j hairColorIndex)] (e\<lparr>eng_prng := s3\<rparr>))
         else ok (e\<lparr>eng_prng := s1\<rparr>))"

definition drawFacialHair :: "AvatarEngine \<Rightarrow> AvatarEngine run" where
  "drawFacialHair e =
     (let p = eng_palette e; f = eng_features e
      in case facialHair f of
           None \<Rightarrow> ok e
         | Some kind \<Rightarrow>
             (let hairColorIndex = role_index p (hair p) (hairColor f)
              in case kind of
                   Stubble \<Rightarrow> forR [0..<8] (\<lambda>i. stubble_round hairColorIndex) e
                 | Mustache \<Rightarrow> draw [ret (fillRect 6 9 4 1 hairColorIndex)] e
                 | Goatee \<Rightarrow> draw [ret (fillRect 7 12 2 2 hairColorIndex)] e))"

definition drawAccessories :: "AvatarEngine \<Rightarrow> AvatarEngine run" where
  "drawAccessories e =
     (let p = eng_palette e; f = eng_features e;
          accessoryColor = 0; glassesY = 6;
          hatColor = role_index p (clothes p) (clothesColor f)
      in draw
           ((case glasses (accessories f) of
               None \<Rightarrow> []
             | Some kind \<Rightarrow>
                 (case kind of
                    GlassesRound \<Rightarrow>
                      [ret (fillCircle 5 glassesY 2 accessoryColor),
                       ret (fillCircle 10 glassesY 2 accessoryColor),
                       ret (setPixel 5 glassesY (-1)),
                       ret (setPixel 10 glassesY (-1))]
                  | GlassesSquare \<Rightarrow>
                      [ret (fillRect 3 (glassesY - 1) 4 3 accessoryColor),
                       ret (fillRect 9 (glassesY - 1) 4 3 accessoryColor),
                       ret (fillRect 4 glassesY 2 1 (-1)),
                       ret (fillRect 10 glassesY 2 1 (-1))])
                 @ [drawLine 7 glassesY 8 glassesY accessoryColor])
            @ (if earrings (accessories f)
               then [ret (setPixel 3 7 accessoryColor), ret (setPixel 12 7 accessoryColor)]
               else [])
            @ (case hat (accessories f) of
                 None \<Rightarrow> []
               | Some Cap \<Rightarrow> [ret (fillRect 3 0 10 3 hatColor), ret (fillRect 1 2 4 1 hatColor)]
               | Some Beanie \<Rightarrow> [ret (fillRect 4 0 8 4 hatColor)])) e)"

subsection \<open>Asymmetry and the whole generation\<close>

definition addAsymmetry :: "AvatarEngine \<Rightarrow> AvatarEngine run" where
  "addAsymmetry e0 =
     seq
       [\<lambda>e. if earrings (accessories (eng_features e))
             then (let (single, s1) = prng_chance (3 / 10) (eng_prng e);
                       e1 = e\<lparr>eng_prng := s1\<rparr>
                   in if single then draw [ret (setPixel 12 7 (-1))] e1 else ok e1)
             else ok e,
        \<lambda>e. (let (mark, s1) = prng_chance (1 / 10) (eng_prng e)
              in if mark then
                   (let (i, s2) = prng_int 8 s1;
                        (j, s3) = prng_int 4 s2
                    in draw [ret (setPixel_at 4 i 7 j 0)] (e\<lparr>eng_prng := s3\<rparr>))
                 else ok (e\<lparr>eng_prng := s1\<rparr>)),
        \<lambda>e. if hairStyle (eng_features e) \<noteq> Some HairBald
             then (let (vary, s1) = prng_chance (1 / 5) (eng_prng e)
                   in if vary then
                        (let p = eng_palette e;
                             hairColorIndex = role_index p (hair p) (hairColor (eng_features e));
                             (i, s2) = prng_int 2 s1;
                             (j, s3) = prng_int 3 s2
                         in draw [ret (setPixel_at 2 i 3 j hairColorIndex)] (e\<lparr>eng_prng := s3\<rparr>))
                      else ok (e\<lparr>eng_prng := s1\<rparr>))
             else ok e]
       e0"

text \<open>\<open>generate\<close> returns \<open>this.buffer\<close>; the engine it leaves behind is returned with it.\<close>

definition generate :: "Mood \<Rightarrow> Gender \<Rightarrow> AvatarEngine \<Rightarrow> (PixelBuffer \<times> AvatarEngine) run" where
  "generate mood gender e0 =
     bind_run
       (seq [\<lambda>e. ok (applyMood mood e),
             \<lambda>e. ok (applyGender gender e),
             draw [ret clear],
             drawShoulders, drawShirt, drawNeck, drawHead, drawHair, drawBrows, drawEyes,
             drawNose, drawMouth, drawFacialHair, drawAccessories,
             draw [ret mirrorVertically],
             addAsymmetry] e0)
       (\<lambda>e. ok (eng_buffer e, e))"

text \<open>
  For the proofs: the buffers of a given shape, the statements that return on every
  state satisfying a predicate and keep it, and the buffer \<open>setPixel\<close> returns.
\<close>

definition shape :: "nat \<Rightarrow> nat \<Rightarrow> PixelBuffer \<Rightarrow> bool" where
  "shape w h b = (wf_buffer b \<and> width b = w \<and> height b = h)"

definition eshape :: "nat \<Rightarrow> nat \<Rightarrow> AvatarEngine \<Rightarrow> bool" where
  "eshape w h e = shape w h (eng_buffer e)"

definition returns :: "('s \<Rightarrow> bool) \<Rightarrow> ('s \<Rightarrow> 's run) \<Rightarrow> bool" where
  "returns P c = (\<forall>s. P s \<longrightarrow> (\<exists>s'. c s = Some (Inr s') \<and> P s'))"

definition setPixel_ok :: "int \<Rightarrow> int \<Rightarrow> int \<Rightarrow> PixelBuffer \<Rightarrow> PixelBuffer" where
  "setPixel_ok x y c b = (case setPixel x y c b of Inr b' \<Rightarrow> b' | Inl e \<Rightarrow> b)"

section \<open>Encoders\<close>

subsection \<open>Byte buffers of the host\<close>

type_synonym byte = "8 word"

text \<open>
  The largest size the host allocates: for a typed array and for a Node \<open>Buffer\<close>
  (\<open>kMaxLength\<close>). Both depend on the engine and its version, and are parameters.
\<close>

record host_limits =
  max_typed_array :: nat
  max_buffer :: nat

definition bindE :: "error + 'a \<Rightarrow> ('a \<Rightarrow> error + 'b) \<Rightarrow> error + 'b" where
  "bindE m f = (case m of Inl e \<Rightarrow> Inl e | Inr a \<Rightarrow> f a)"

text \<open>\<open>new Uint8Array(n)\<close> and \<open>Buffer.alloc(n)\<close>: zero-filled, a RangeError beyond the limit.\<close>

definition Uint8Array_new :: "host_limits \<Rightarrow> nat \<Rightarrow> error + byte list" where
  "Uint8Array_new hl n = (if n > max_typed_array hl then Inl RangeError else Inr (replicate n 0))"

definition Buffer_alloc :: "host_limits \<Rightarrow> nat \<Rightarrow> error + byte list" where
  "Buffer_alloc hl n = (if n > max_buffer hl then Inl RangeError else Inr (replicate n 0))"

text \<open>
  Consecutive element writes \<open>buf[off] = b0; buf[off + 1] = b1; ...\<close>; a write past
  the end of a typed array or \<open>Buffer\<close> is ignored, as \<open>list_update\<close> ignores it.
\<close>

primrec write_bytes :: "byte list \<Rightarrow> nat \<Rightarrow> byte list \<Rightarrow> byte list" where
  "write_bytes buf off [] = buf"
| "write_bytes buf off (x # xs) = write_bytes (buf[off := x]) (Suc off) xs"

definition be32 :: "nat \<Rightarrow> byte list" where
  "be32 v = [of_nat (v div 16777216), of_nat (v div 65536), of_nat (v div 256), of_nat v]"

definition le16 :: "nat \<Rightarrow> byte list" where
  "le16 v = [of_nat v, of_nat (v div 256)]"

text \<open>
  \<open>buf.writeUInt32BE(value, offset)\<close>: Node raises a RangeError for a value beyond
  \<open>2 ^ 32 - 1\<close> and for an offset that leaves no room for four bytes.
\<close>

definition writeUInt32BE :: "nat \<Rightarrow> nat \<Rightarrow> byte list \<Rightarrow> error + byte list" where
  "writeUInt32BE v off buf =
     (if v > 4294967295 \<or> off + 4 > length buf then Inl RangeError
      else Inr (write_bytes buf off (be32 v)))"

definition writeUInt16LE :: "nat \<Rightarrow> nat \<Rightarrow> byte list \<Rightarrow> error + byte list" where
  "writeUInt16LE v off buf =
     (if v > 65535 \<or> off + 2 > length buf then Inl RangeError
      else Inr (write_bytes buf off (le16 v)))"

definition writeUInt8 :: "nat \<Rightarrow> nat \<Rightarrow> byte list \<Rightarrow> error + byte list" where
  "writeUInt8 v off buf =
     (if v > 255 \<or> off + 1 > length buf then Inl RangeError
      else Inr (write_bytes buf off [of_nat v]))"

text \<open>\<open>buf.write(string, offset)\<close> for an ASCII string: as many bytes as fit.\<close>

definition write_ascii :: "string \<Rightarrow> nat \<Rightarrow> byte list \<Rightarrow> byte list" where
  "write_ascii s off buf = write_bytes buf off (map (\<lambda>c. of_nat (of_char c)) s)"

text \<open>\<open>buf.subarray(start, end)\<close> with \<open>0 \<le> start\<close>.\<close>

definition subarray :: "byte list \<Rightarrow> nat \<Rightarrow> nat \<Rightarrow> byte list" where
  "subarray buf start stop = drop start (take stop buf)"

subsection \<open>CRC32\<close>

text \<open>
  The table entry for \<open>i\<close>: eight rounds of
  \<open>c = c & 1 ? 0xedb88320 ^ (c >>> 1) : c >>> 1\<close>. The table is a \<open>Uint32Array\<close>,
  and the running value goes through 32-bit operators only.
\<close>

definition crc_round :: "u32 \<Rightarrow> u32" where
  "crc_round c = (if c AND 1 \<noteq> 0 then 3988292384 XOR drop_bit 1 c else drop_bit 1 c)"

definition crcTable :: "u32 list" where
  "crcTable = map (\<lambda>i. (crc_round ^^ 8) (of_nat i)) [0..<256]"

definition crc_step :: "u32 \<Rightarrow> byte \<Rightarrow> u32" where
  "crc_step crc d = crcTable ! unat ((crc XOR ucast d) AND 255) XOR drop_bit 8 crc"

definition crc32 :: "byte list \<Rightarrow> u32" where
  "crc32 data = foldl crc_step 4294967295 data XOR 4294967295"

subsection \<open>Stored deflate blocks\<close>

text \<open>\<open>Buffer.concat(list)\<close> allocates the sum of the lengths.\<close>

definition Buffer_concat :: "host_limits \<Rightarrow> byte list list \<Rightarrow> error + byte list" where
  "Buffer_concat hl bufs =
     (if length (concat bufs) > max_buffer hl then Inl RangeError else Inr (concat bufs))"

text \<open>
  \<open>for (let i = 0; i < data.length; i += maxBlockSize)\<close>: one stored block per 65535
  bytes. \<open>data.copy(block, 5, i, i + blockSize)\<close> fills the rest of the block, which
  was allocated with \<open>blockSize + 5\<close> bytes.
\<close>

function deflate_blocks :: "host_limits \<Rightarrow> nat \<Rightarrow> byte list \<Rightarrow> error + byte list list" where
  "deflate_blocks hl i data =
     (if i < length data then
        (let blockSize = min 65535 (length data - i);
             isLast = (i + blockSize \<ge> length data)
         in case Buffer_alloc hl (blockSize + 5) of
              Inl e \<Rightarrow> Inl e
            | Inr block0 \<Rightarrow>
                (let block1 = block0[0 := (if isLast then 1 else 0)];
                     block2 = write_bytes block1 1 (le16 blockSize);
                     block3 = write_bytes block2 3
                                (le16 (unat (NOT (of_nat blockSize :: u32) AND 65535)));
                     block = write_bytes block3 5 (take blockSize (drop i data))
                 in case deflate_blocks hl (i + 65535) data of
                      Inl e \<Rightarrow> Inl e
                    | Inr blocks \<Rightarrow> Inr (block # blocks)))
      else Inr [])"
  by pat_completeness auto
termination
  by (relation "measure (\<lambda>(hl, i, data). length data - i)") auto

definition deflate :: "host_limits \<Rightarrow> byte list \<Rightarrow> error + byte list" where
  "deflate hl data = bindE (deflate_blocks hl 0 data) (Buffer_concat hl)"

subsection \<open>The PNG container\<close>

definition png_signature :: "byte list" where
  "png_signature = [0x89, 0x50, 0x4e, 0x47, 0x0d, 0x0a, 0x1a, 0x0a]"

definition png_iend :: "byte list" where
  "png_iend = [0x00, 0x00, 0x00, 0x00, 0x49, 0x45, 0x4e, 0x44, 0xae, 0x42, 0x60, 0x82]"

text \<open>The constant the \<open>catch\<close> of \<open>generatePNG\<close> returns.\<close>

definition minimal_png :: "byte list" where
  "minimal_png =
     [0x89, 0x50, 0x4e, 0x47, 0x0d, 0x0a, 0x1a, 0x0a,
      0x00, 0x00, 0x00, 0x0d,
      0x49, 0x48, 0x44, 0x52,
      0x00, 0x00, 0x00, 0x01,
      0x00, 0x00, 0x00, 0x01,
      0x08, 0x06, 0x00, 0x00, 0x00,
      0x1f, 0x15, 0xc4, 0x89,
      0x00, 0x00, 0x00, 0x0a,
      0x49, 0x44, 0x41, 0x54,
      0x78, 0x9c, 0x62, 0x00, 0x00, 0x00, 0x02, 0x00, 0x01,
      0xe2, 0x21, 0xbc, 0x33,
      0x00, 0x00, 0x00, 0x00,
      0x49, 0x45, 0x4e, 0x44,
      0xae, 0x42, 0x60, 0x82]"

text \<open>
  The scanlines: \<open>pos\<close> runs through \<open>imageData\<close>; each row gets the filter byte 0
  and then four bytes per pixel, \<open>data[srcIndex + k] || 0\<close>, which is 0 where \<open>data\<close>
  has no such element.
\<close>

definition data_or_0 :: "byte list \<Rightarrow> nat \<Rightarrow> byte" where
  "data_or_0 data i = (if i < length data then data ! i else 0)"

definition put :: "byte \<Rightarrow> byte list \<times> nat \<Rightarrow> byte list \<times> nat" where
  "put v st = (case st of (imageData, pos) \<Rightarrow> (imageData[pos := v], pos + 1))"

definition scanlines :: "byte list \<Rightarrow> nat \<Rightarrow> nat \<Rightarrow> byte list \<Rightarrow> byte list" where
  "scanlines data w h imageData0 =
     fst (fold (\<lambda>y st.
            fold (\<lambda>x st.
                   let srcIndex = (y * w + x) * 4
                   in put (data_or_0 data (srcIndex + 3))
                        (put (data_or_0 data (srcIndex + 2))
                          (put (data_or_0 data (srcIndex + 1))
                            (put (data_or_0 data srcIndex) st))))
              [0..<w] (put 0 st))
          [0..<h] (imageData0, 0))"

text \<open>
  The body of the \<open>try\<close> in \<open>generatePNG\<close>. The dimensions are JavaScript numbers:
  \<open>None\<close> is NaN, which \<open>writeUInt32BE\<close> stores as 0 and \<open>Buffer.alloc\<close> refuses.
\<close>

definition generatePNG_try ::
  "host_limits \<Rightarrow> byte list \<Rightarrow> nat option \<Rightarrow> nat option \<Rightarrow> error + byte list" where
  "generatePNG_try hl data wd ht =
     (case (wd, ht) of
        (Some w, Some h) \<Rightarrow>
          bindE (Buffer_alloc hl 25) (\<lambda>ihdr0.
          bindE (writeUInt32BE 13 0 ihdr0) (\<lambda>ihdr1.
          bindE (writeUInt32BE w 8 (write_ascii ''IHDR'' 4 ihdr1)) (\<lambda>ihdr2.
          bindE (writeUInt32BE h 12 ihdr2) (\<lambda>ihdr3.
          bindE (writeUInt8 8 16 ihdr3) (\<lambda>ihdr4.
          bindE (writeUInt8 6 17 ihdr4) (\<lambda>ihdr5.
          bindE (writeUInt8 0 18 ihdr5) (\<lambda>ihdr6.
          bindE (writeUInt8 0 19 ihdr6) (\<lambda>ihdr7.
          bindE (writeUInt8 0 20 ihdr7) (\<lambda>ihdr8.
          bindE (writeUInt32BE (unat (crc32 (subarray ihdr8 4 21))) 21 ihdr8) (\<lambda>ihdr.
          bindE (Buffer_alloc hl ((w * 4 + 1) * h)) (\<lambda>imageData0.
          bindE (deflate hl (scanlines data w h imageData0)) (\<lambda>compressed.
          bindE (Buffer_alloc hl (length compressed + 12)) (\<lambda>idat0.
          bindE (writeUInt32BE (length compressed) 0 idat0) (\<lambda>idat1.
          let idat2 = write_bytes (write_ascii ''IDAT'' 4 idat1) 8 compressed
          in
          bindE (writeUInt32BE (unat (crc32 (subarray idat2 4 (length idat2 - 4))))
                   (length idat2 - 4) idat2) (\<lambda>idat.
          Buffer_concat hl [png_signature, ihdr, idat, png_iend])))))))))))))))
      | _ \<Rightarrow> Inl RangeError)"

definition generatePNG :: "host_limits \<Rightarrow> byte list \<Rightarrow> nat option \<Rightarrow> nat option \<Rightarrow> byte list" where
  "generatePNG hl data wd ht =
     (case generatePNG_try hl data wd ht of
        Inr png \<Rightarrow> png
      | Inl e \<Rightarrow> minimal_png)"

subsection \<open>Colours\<close>

definition hex_digit :: "char \<Rightarrow> nat option" where
  "hex_digit c =
     (let n = (of_char c :: nat)
      in if 48 \<le> n \<and> n \<le> 57 then Some (n - 48)
         else if 97 \<le> n \<and> n \<le> 102 then Some (n - 87)
         else if 65 \<le> n \<and> n \<le> 70 then Some (n - 55)
         else None)"

text \<open>The value of a run of hexadecimal digits, most significant first.\<close>

definition hex_value :: "char list \<Rightarrow> int" where
  "hex_value ds = foldl (\<lambda>acc c. acc * 16 + int (case hex_digit c of Some d \<Rightarrow> d | None \<Rightarrow> 0)) 0 ds"

text \<open>
  \<open>Number.parseInt(s, 16)\<close>: leading white space is skipped, then a sign, then an
  optional \<open>0x\<close> or \<open>0X\<close>, then the longest run of hexadecimal digits is read; with no
  digit the result is NaN (\<open>None\<close>).
\<close>

definition parseInt16 :: "string \<Rightarrow> int option" where
  "parseInt16 s =
     (let s1 = dropWhile isWhiteSpace s;
          negative = (s1 \<noteq> [] \<and> hd s1 = CHR ''-'');
          s2 = (if s1 \<noteq> [] \<and> (hd s1 = CHR ''-'' \<or> hd s1 = CHR ''+'') then tl s1 else s1);
          s3 = (if take 2 s2 = ''0x'' \<or> take 2 s2 = ''0X'' then drop 2 s2 else s2);
          ds = takeWhile (\<lambda>c. hex_digit c \<noteq> None) s3
      in if ds = [] then None
         else Some (if negative then - hex_value ds else hex_value ds))"

text \<open>
  \<open>hexToRgba\<close>; the argument is a string or \<open>undefined\<close> (\<open>None\<close>). The components
  are numbers; stored into a \<open>Uint8Array\<close> they are taken modulo 256.
\<close>

definition hexToRgba :: "string option \<Rightarrow> int list" where
  "hexToRgba hex =
     (case hex of
        None \<Rightarrow> [0, 0, 0, 255]
      | Some h \<Rightarrow>
          if h = [] then [0, 0, 0, 255]
          else
            let t = trim h;
                cleanHex0 = (if take 1 t = ''#'' then drop 1 t else t);
                cleanHex = (if length cleanHex0 = 3 then concat (map (\<lambda>c. [c, c]) cleanHex0)
                            else cleanHex0)
            in if length cleanHex \<noteq> 6 then [0, 0, 0, 255]
               else
                 (case (parseInt16 (take 2 cleanHex), parseInt16 (take 2 (drop 2 cleanHex)),
                        parseInt16 (take 2 (drop 4 cleanHex))) of
                    (Some r, Some g, Some b) \<Rightarrow> [r, g, b, 255]
                  | _ \<Rightarrow> [0, 0, 0, 255]))"

definition to_bytes :: "int list \<Rightarrow> byte list" where
  "to_bytes color = map word_of_int color"

subsection \<open>Raster encoder (toPNG)\<close>

text \<open>
  \<open>pixelSize = Math.max(1, Math.floor(size / buffer.width))\<close> and
  \<open>actualSize = pixelSize * buffer.width\<close>, for an integer \<open>size\<close> (the request
  validation passes integers from 64 to 1024, where the floor of the double quotient is
  the integer quotient). With \<open>width = 0\<close> the quotient is infinite or NaN: a negative
  \<open>size\<close> gives \<open>pixelSize = 1\<close> and \<open>actualSize = 0\<close>, every other \<open>size\<close> gives
  \<open>actualSize = NaN\<close> (\<open>None\<close>), and then no loop of \<open>toPNG\<close> runs.
\<close>

definition png_dims :: "int \<Rightarrow> nat \<Rightarrow> (nat \<times> nat) option" where
  "png_dims sz w =
     (if w = 0 then (if sz < 0 then Some (1, 0) else None)
      else (let pixelSize = nat (max 1 (sz div int w)) in Some (pixelSize, pixelSize * w)))"

text \<open>\<open>palette.colors[colorIndex]\<close> for an integer index: \<open>undefined\<close> out of range.\<close>

definition color_at :: "string list \<Rightarrow> int \<Rightarrow> string option" where
  "color_at cs i = (if 0 \<le> i \<and> i < int (length cs) then Some (cs ! nat i) else None)"

definition fill_pattern :: "nat \<Rightarrow> nat \<Rightarrow> byte list \<Rightarrow> byte list" where
  "fill_pattern pixelSize actualSize bitmapData =
     fold (\<lambda>y. fold (\<lambda>x bm.
       let index = (y * actualSize + x) * 4;
           checker = x div pixelSize + y div pixelSize;
           isLight = (checker mod 2 = 0);
           gray = (if isLight then 240 else 220)
       in write_bytes bm index [gray, gray, gray, 255]) [0..<actualSize]) [0..<actualSize]
       bitmapData"

definition fill_color :: "int list \<Rightarrow> byte list \<Rightarrow> byte list" where
  "fill_color bgColor bitmapData =
     fold (\<lambda>k bm. write_bytes bm (4 * k) (to_bytes bgColor))
       [0..<(length bitmapData + 3) div 4] bitmapData"

definition blit_cell :: "nat \<Rightarrow> nat \<Rightarrow> nat \<Rightarrow> nat \<Rightarrow> int list \<Rightarrow> byte list \<Rightarrow> byte list" where
  "blit_cell pixelSize actualSize x y color bitmapData =
     fold (\<lambda>dy. fold (\<lambda>dx bm.
       let finalX = x * pixelSize + dx;
           finalY = y * pixelSize + dy
       in if finalX < actualSize \<and> finalY < actualSize
          then write_bytes bm ((finalY * actualSize + finalX) * 4) (to_bytes color)
          else bm) [0..<pixelSize]) [0..<pixelSize] bitmapData"

definition draw_cells ::
  "Palette \<Rightarrow> int list list \<Rightarrow> nat \<Rightarrow> nat \<Rightarrow> nat \<Rightarrow> nat \<Rightarrow> byte list \<Rightarrow> error + byte list" where
  "draw_cells palette data w h pixelSize actualSize =
     forE [0..<h] (\<lambda>y. forE [0..<w] (\<lambda>x bm.
       case cell_read data y x of
         Inl e \<Rightarrow> Inl e
       | Inr colorIndex \<Rightarrow>
           if colorIndex = -1 \<or> colorIndex \<ge> int (length (colors palette)) then Inr bm
           else (case color_at (colors palette) colorIndex of
                   None \<Rightarrow> Inr bm
                 | Some hexColor \<Rightarrow>
                     if hexColor = [] then Inr bm
                     else Inr (blit_cell pixelSize actualSize x y
                                 (hexToRgba (Some hexColor)) bm))))"

text \<open>
  The body of the \<open>try\<close> in \<open>toPNG\<close>. An inherited member of \<open>Object.prototype\<close> has
  no \<open>colors\<close>, and the guard throws an \<open>Error\<close>.
\<close>

definition toPNG_try ::
  "host_limits \<Rightarrow> PixelBuffer \<Rightarrow> int \<Rightarrow> string \<Rightarrow> string \<Rightarrow> error + byte list" where
  "toPNG_try hl b sz bg paletteName =
     (case getPalette paletteName of
        None \<Rightarrow> Inl Error
      | Some palette \<Rightarrow>
          (let data = getData b
           in case png_dims sz (width b) of
                None \<Rightarrow>
                  bindE (Uint8Array_new hl 0) (\<lambda>bitmapData.
                  bindE (draw_cells palette data (width b) (height b) 0 0 bitmapData) (\<lambda>bm.
                  Inr (generatePNG hl bm None None)))
              | Some (pixelSize, actualSize) \<Rightarrow>
                  bindE (Uint8Array_new hl (actualSize * actualSize * 4)) (\<lambda>bitmapData.
                  let bitmap1 =
                        (if bg \<noteq> ''transparent'' then
                           (if bg = ''pattern'' then fill_pattern pixelSize actualSize bitmapData
                            else fill_color (hexToRgba (Some bg)) bitmapData)
                         else bitmapData)
                  in
                  bindE (draw_cells palette data (width b) (height b) pixelSize actualSize
                           bitmap1) (\<lambda>bm.
                  Inr (generatePNG hl bm (Some actualSize) (Some actualSize))))))"

definition fallbackData :: "byte list" where
  "fallbackData = [0, 0, 0, 0]"

definition toPNG :: "host_limits \<Rightarrow> PixelBuffer \<Rightarrow> int \<Rightarrow> string \<Rightarrow> string \<Rightarrow> byte list" where
  "toPNG hl b sz bg paletteName =
     (case toPNG_try hl b sz bg paletteName of
        Inr png \<Rightarrow> png
      | Inl e \<Rightarrow> generatePNG hl fallbackData (Some 1) (Some 1))"

subsection \<open>Vector encoder (toSVG)\<close>

text \<open>
  \<open>pixelSize = size / buffer.width\<close> is a double, the rectangle coordinates are
  products with it, and the template strings print them with the host's
  number-to-string conversion. These operations of the host are parameters.
\<close>

record 'n js_numbers =
  num_of_int :: "int \<Rightarrow> 'n"
  num_div :: "'n \<Rightarrow> 'n \<Rightarrow> 'n"
  num_mul :: "'n \<Rightarrow> 'n \<Rightarrow> 'n"
  num_str :: "'n \<Rightarrow> string"

record 'n rect =
  rect_x :: 'n
  rect_y :: 'n
  rect_width :: 'n
  rect_height :: 'n
  rect_color :: "string option"

text \<open>
  \<open>processed\<close> has \<open>buffer.height\<close> rows of \<open>buffer.width\<close> flags, and the loops
  below index it within these bounds.
\<close>

definition flag_at :: "bool list list \<Rightarrow> nat \<Rightarrow> nat \<Rightarrow> bool" where
  "flag_at processed y x = (y < length processed \<and> x < length (processed ! y) \<and> processed ! y ! x)"

text \<open>The \<open>while\<close> loop that finds the width of the horizontal run.\<close>

function run_width ::
  "int list list \<Rightarrow> bool list list \<Rightarrow> nat \<Rightarrow> nat \<Rightarrow> nat \<Rightarrow> int \<Rightarrow> nat \<Rightarrow> error + nat" where
  "run_width data processed w y x colorIndex n =
     (if x + n < w then
        (case cell_read data y (x + n) of
           Inl e \<Rightarrow> Inl e
         | Inr v \<Rightarrow>
             if v = colorIndex \<and> \<not> flag_at processed y (x + n)
             then run_width data processed w y x colorIndex (n + 1)
             else Inr n)
      else Inr n)"
  by pat_completeness auto
termination
  by (relation "measure (\<lambda>(data, processed, w, y, x, colorIndex, n). w - (x + n))") auto

text \<open>The inner \<open>for\<close> loop with its \<open>break\<close>: does the run extend over row \<open>y'\<close>?\<close>

primrec row_extends ::
  "int list list \<Rightarrow> bool list list \<Rightarrow> nat \<Rightarrow> nat \<Rightarrow> int \<Rightarrow> nat list \<Rightarrow> error + bool" where
  "row_extends data processed y' x colorIndex [] = Inr True"
| "row_extends data processed y' x colorIndex (dx # rest) =
     (case cell_read data y' (x + dx) of
        Inl e \<Rightarrow> Inl e
      | Inr v \<Rightarrow>
          if v \<noteq> colorIndex \<or> flag_at processed y' (x + dx) then Inr False
          else row_extends data processed y' x colorIndex rest)"

function run_height ::
  "int list list \<Rightarrow> bool list list \<Rightarrow> nat \<Rightarrow> nat \<Rightarrow> nat \<Rightarrow> int \<Rightarrow> nat \<Rightarrow> nat \<Rightarrow> error + nat" where
  "run_height data processed h y x colorIndex n m =
     (if y + m < h then
        (case row_extends data processed (y + m) x colorIndex [0..<n] of
           Inl e \<Rightarrow> Inl e
         | Inr canExtendVertically \<Rightarrow>
             if canExtendVertically
             then run_height data processed h y x colorIndex n (m + 1)
             else Inr m)
      else Inr m)"
  by pat_completeness auto
termination
  by (relation "measure (\<lambda>(data, processed, h, y, x, colorIndex, n, m). h - (y + m))") auto

definition mark_processed :: "nat \<Rightarrow> nat \<Rightarrow> nat \<Rightarrow> nat \<Rightarrow> bool list list \<Rightarrow> bool list list" where
  "mark_processed y x n m processed =
     fold (\<lambda>dy. fold (\<lambda>dx pr. pr[y + dy := (pr ! (y + dy))[x + dx := True]]) [0..<n]) [0..<m]
       processed"

text \<open>
  One cell of the row-major scan. \<open>palette.colors[colorIndex]\<close> throws when the
  palette is an inherited member without \<open>colors\<close>.
\<close>

definition scan_cell ::
  "'n js_numbers \<Rightarrow> Palette option \<Rightarrow> int list list \<Rightarrow> nat \<Rightarrow> nat \<Rightarrow> 'n \<Rightarrow> nat \<Rightarrow> nat
     \<Rightarrow> bool list list \<times> 'n rect list \<Rightarrow> error + bool list list \<times> 'n rect list" where
  "scan_cell js palette data w h pixelSize y x st =
     (case st of (processed, rects) \<Rightarrow>
        if flag_at processed y x then Inr st
        else
          (case cell_read data y x of
             Inl e \<Rightarrow> Inl e
           | Inr colorIndex \<Rightarrow>
               if colorIndex = -1 then Inr st
               else
                 (case palette of
                    None \<Rightarrow> Inl TypeError
                  | Some p \<Rightarrow>
                      let color = color_at (colors p) colorIndex
                      in bindE (run_width data processed w y x colorIndex 1) (\<lambda>n.
                         bindE (run_height data processed h y x colorIndex n 1) (\<lambda>m.
                         Inr (mark_processed y x n m processed,
                              rects @ [\<lparr>rect_x = num_mul js (num_of_int js (int x)) pixelSize,
                                        rect_y = num_mul js (num_of_int js (int y)) pixelSize,
                                        rect_width = num_mul js (num_of_int js (int n)) pixelSize,
                                        rect_height = num_mul js (num_of_int js (int m)) pixelSize,
                                        rect_color = color\<rparr>]))))))"

text \<open>A template string prints \<open>undefined\<close> as the word.\<close>

definition str_or_undefined :: "string option \<Rightarrow> string" where
  "str_or_undefined s = (case s of None \<Rightarrow> ''undefined'' | Some t \<Rightarrow> t)"

definition rect_markup :: "'n js_numbers \<Rightarrow> 'n rect \<Rightarrow> string" where
  \<open>rect_markup js r =
     ''<rect x="'' @ num_str js (rect_x r) @ ''" y="'' @ num_str js (rect_y r)
     @ ''" width="'' @ num_str js (rect_width r) @ ''" height="'' @ num_str js (rect_height r)
     @ ''" fill="'' @ str_or_undefined (rect_color r) @ ''"/>''\<close>

definition pattern_markup :: "'n js_numbers \<Rightarrow> 'n \<Rightarrow> 'n \<Rightarrow> string" where
  \<open>pattern_markup js sz pixelSize =
     (let ps = num_str js pixelSize;
          ps2 = num_str js (num_mul js pixelSize (num_of_int js 2));
          nl8 = CHR 0x0A # ''        '';
          nl6 = CHR 0x0A # ''      ''
      in ''<defs><pattern id="bg" patternUnits="userSpaceOnUse" width="'' @ ps2
         @ ''" height="'' @ ps2 @ ''">'' @ nl8
         @ ''<rect width="'' @ ps @ ''" height="'' @ ps @ ''" fill="#f0f0f0"/>'' @ nl8
         @ ''<rect x="'' @ ps @ ''" y="'' @ ps @ ''" width="'' @ ps @ ''" height="'' @ ps
         @ ''" fill="#f0f0f0"/>'' @ nl8
         @ ''<rect x="'' @ ps @ ''" width="'' @ ps @ ''" height="'' @ ps
         @ ''" fill="#e0e0e0"/>'' @ nl8
         @ ''<rect y="'' @ ps @ ''" width="'' @ ps @ ''" height="'' @ ps
         @ ''" fill="#e0e0e0"/>'' @ nl6
         @ ''</pattern></defs>''
         @ ''<rect width="'' @ num_str js sz @ ''" height="'' @ num_str js sz
         @ ''" fill="url(#bg)"/>'')\<close>

definition toSVG ::
  "'n js_numbers \<Rightarrow> PixelBuffer \<Rightarrow> int \<Rightarrow> string \<Rightarrow> string \<Rightarrow> error + string" where
  \<open>toSVG js b sz bg paletteName =
     (let palette = getPalette paletteName;
          size_n = num_of_int js sz;
          pixelSize = num_div js size_n (num_of_int js (int (width b)));
          data = getData b;
          s = num_str js size_n;
          svg0 = ''<svg width="'' @ s @ ''" height="'' @ s @ ''" viewBox="0 0 '' @ s @ '' '' @ s
                 @ ''" xmlns="http://www.w3.org/2000/svg" shapeRendering="crispEdges">'';
          svg1 = (if bg \<noteq> ''transparent'' then
                    (if bg = ''pattern'' then svg0 @ pattern_markup js size_n pixelSize
                     else svg0 @ ''<rect width="'' @ s @ ''" height="'' @ s @ ''" fill="'' @ bg
                          @ ''"/>'')
                  else svg0);
          processed0 = replicate (height b) (replicate (width b) False)
      in bindE
           (forE [0..<height b] (\<lambda>y. forE [0..<width b]
              (scan_cell js palette data (width b) (height b) pixelSize y)) (processed0, []))
           (\<lambda>st. Inr (svg1 @ concat (map (rect_markup js) (snd st)) @ ''</svg>'')))\<close>

section \<open>Properties of the PRNG\<close>

lemma xor_eq_zero_word: "(x :: 'a::len word) XOR y = 0 \<Longrightarrow> x = y"
proof -
  assume h: "x XOR y = 0"
  have "x = (x XOR y) XOR y" by (simp add: xor.assoc)
  then show "x = y" using h by simp
qed

lemma shl_fixpoint_zero:
  fixes x :: u32
  assumes "0 < k" and "x = push_bit k x"
  shows "x = 0"
proof -
  have it: "x = push_bit (n * k) x" for n
  proof (induction n)
    case 0 show ?case by simp
  next
    case (Suc n)
    have "push_bit (Suc n * k) x = push_bit (n * k) (push_bit k x)"
      by (simp add: push_bit_push_bit add.commute)
    with Suc assms(2) show ?case by simp
  qed
  have "32 \<le> 32 * k" using assms(1) by simp
  then have "push_bit (32 * k) x = 0" by (simp add: push_bit_word_beyond)
  with it [of 32] show ?thesis by simp
qed

lemma shr_fixpoint_zero:
  fixes x :: u32
  assumes "0 < k" and "x = drop_bit k x"
  shows "x = 0"
proof -
  have it: "x = drop_bit (n * k) x" for n
  proof (induction n)
    case 0 show ?case by simp
  next
    case (Suc n)
    have "drop_bit (Suc n * k) x = drop_bit (n * k) (drop_bit k x)"
      by (simp add: drop_bit_drop_bit add.commute)
    with Suc assms(2) show ?case by simp
  qed
  have "32 \<le> 32 * k" using assms(1) by simp
  then have "drop_bit (32 * k) x = 0" by (simp add: drop_bit_word_beyond)
  with it [of 32] show ?thesis by simp
qed

text \<open>Each xorshift step is injective at zero, so \<open>next()\<close> keeps a nonzero state nonzero.\<close>

lemma prng_next_nonzero: "s \<noteq> 0 \<Longrightarrow> snd (prng_next s) \<noteq> 0"
proof -
  assume nz: "s \<noteq> 0"
  define s1 where "s1 = s XOR push_bit 13 s"
  define s2 where "s2 = s1 XOR drop_bit 17 s1"
  define s3 where "s3 = s2 XOR push_bit 5 s2"
  have "s1 \<noteq> 0"
    using nz shl_fixpoint_zero [of 13 s] xor_eq_zero_word [of s "push_bit 13 s"]
    unfolding s1_def by auto
  then have "s2 \<noteq> 0"
    using shr_fixpoint_zero [of 17 s1] xor_eq_zero_word [of s1 "drop_bit 17 s1"]
    unfolding s2_def by auto
  then have "s3 \<noteq> 0"
    using shl_fixpoint_zero [of 5 s2] xor_eq_zero_word [of s2 "push_bit 5 s2"]
    unfolding s3_def by auto
  then show ?thesis by (simp add: prng_next_def Let_def s1_def s2_def s3_def)
qed

lemma prng_next_fst_snd: "fst (prng_next s) = snd (prng_next s)"
  by (simp add: prng_next_def Let_def)

lemma prng_draws_nonzero: "s \<noteq> 0 \<Longrightarrow> prng_draws n s \<noteq> 0"
  by (induction n arbitrary: s) (simp_all add: prng_next_nonzero)

lemma prng_next_zero: "prng_next 0 = (0, 0)"
  by (simp add: prng_next_def)

lemma prng_draws_zero: "prng_draws n 0 = 0"
  by (induction n) (simp_all add: prng_next_zero)

text \<open>For a seed that is an unsigned 32-bit integer the constructor's state is nonzero.\<close>

lemma XorShift32_nonzero_u32:
  assumes "0 \<le> seed" and "seed < 2 ^ 32"
  shows "XorShift32 seed \<noteq> 0"
proof (cases "seed = 0")
  case True
  then show ?thesis by (simp add: XorShift32_def)
next
  case False
  have "uint (word_of_int seed :: u32) = seed"
    using assms by (simp add: uint_word_of_int)
  then have "(word_of_int seed :: u32) \<noteq> 0"
    using False by auto
  then show ?thesis using False by (simp add: XorShift32_def)
qed

text \<open>
  C5. The claim: the state is never zero, after construction and after any number of
  draws. \<open>next()\<close> does keep a nonzero state nonzero (\<open>prng_draws_nonzero\<close>), and the
  constructor yields a nonzero state for every seed in \<open>[0, 2 ^ 32)\<close>
  (\<open>XorShift32_nonzero_u32\<close>). But the constructor compares the seed with zero before
  truncating it to 32 bits: the seed \<open>4294967296 = 2 ^ 32\<close> is not zero, its unsigned
  32-bit value is, and the generator starts in the all-zero state, which it never leaves.
\<close>

theorem XorShift32_seed_2_32_state_zero:
  "XorShift32 4294967296 = 0
   \<and> prng_next (XorShift32 4294967296) = (0, 0)
   \<and> prng_draws n (XorShift32 4294967296) = 0"
proof -
  have z: "XorShift32 4294967296 = 0" by (simp add: XorShift32_def)
  show ?thesis unfolding z by (simp add: prng_next_zero prng_draws_zero)
qed

lemma prng_next_bound: "unat (fst (prng_next s)) \<le> 4294967295"
proof -
  have "unat (fst (prng_next s)) < 2 ^ 32"
    using unsigned_less [of "fst (prng_next s)"] by simp
  then show ?thesis by simp
qed

text \<open>
  C4. For every generator state, \<open>chance(0)\<close> is false and \<open>chance(1)\<close> is true:
  \<open>chance(p)\<close> holds exactly when \<open>next() / 2^32 < p\<close>, \<open>next()\<close> lies in
  \<open>[0, 2^32 - 1]\<close>, and one draw is consumed either way.
\<close>

theorem prng_chance_boundaries:
  "fst (prng_chance 0 s) = False
   \<and> fst (prng_chance 1 s) = True
   \<and> fst (prng_chance p s) = (of_nat (unat (fst (prng_next s))) / 2 ^ 32 < p)
   \<and> unat (fst (prng_next s)) \<le> 2 ^ 32 - 1
   \<and> snd (prng_chance p s) = snd (prng_next s)"
proof -
  obtain r s' where ns: "prng_next s = (r, s')" by (cases "prng_next s")
  have b: "unat r \<le> 4294967295" using prng_next_bound [of s] ns by simp
  have lt: "(of_nat (unat r) :: rat) < 4294967296"
  proof -
    have "unat r < 4294967296" using b by simp
    then have "(of_nat (unat r) :: rat) < of_nat 4294967296" by (simp only: of_nat_less_iff)
    then show ?thesis by simp
  qed
  have nn: "(0::rat) \<le> of_nat (unat r)" by (rule of_nat_0_le_iff)
  have c0: "\<not> (of_nat (unat r) :: rat) / 4294967296 < 0"
    using nn by (simp add: divide_less_0_iff not_less)
  have c1: "(of_nat (unat r) :: rat) / 4294967296 < 1"
    using lt by simp
  show ?thesis
    using c0 c1 b by (simp add: prng_chance_def ns)
qed

section \<open>Properties of the seed derivation\<close>









text \<open>The two trims agree on the strings of code units below 256.\<close>

lemma isWhiteSpace_unit_utf16:
  "isWhiteSpace_unit (of_nat (of_char c)) = isWhiteSpace c"
proof -
  define n :: nat where "n = of_char c"
  have n: "n < 256" by (simp add: n_def)
  then have "n mod 65536 = n" by simp
  then have u: "unat (of_nat n :: code_unit) = n" by (simp add: unat_of_nat)
  have "isWhiteSpace_unit (of_nat n) = (n \<in> {9, 10, 11, 12, 13, 32, 160})"
    using n by (auto simp add: isWhiteSpace_unit_def Let_def u)
  then show ?thesis by (simp add: n_def isWhiteSpace_def)
qed

lemma trim_units_utf16: "trim_units (utf16 s) = utf16 (trim s)"
proof -
  have d: "dropWhile isWhiteSpace_unit (utf16 t) = utf16 (dropWhile isWhiteSpace t)" for t
    by (induction t) (simp_all add: utf16_def isWhiteSpace_unit_utf16)
  have r: "rev (utf16 t) = utf16 (rev t)" for t
    by (simp add: utf16_def rev_map)
  show ?thesis by (simp add: trim_units_def trim_def d r)
qed


lemmas seed_eval = emailToSeed_def trim_units_def isWhiteSpace_unit_def toLowerCase_def
  toLowerCase_unit_def latin1_def hash_step_def utf16_def Let_def



text \<open>
  An ASCII capital and its small letter are a change of case; the salt is hashed as it
  is, in its case and with its white space.
\<close>

lemma case_changed_ascii:
  fixes n :: nat
  assumes "65 \<le> n" and "n \<le> 90"
  shows "case_changed (of_nat n) (of_nat (n + 32))"
proof -
  have "unat (of_nat n :: code_unit) = n" using assms by (simp add: unat_of_nat)
  then show ?thesis using assms by (simp add: case_changed_def capital_def)
qed

lemma salt_is_raw:
  "emailToSeed (utf16 ''a@b.c'') (utf16 ''A'') \<noteq> emailToSeed (utf16 ''a@b.c'') (utf16 ''a'')
   \<and> emailToSeed (utf16 ''a@b.c'') (utf16 '' '') \<noteq> emailToSeed (utf16 ''a@b.c'') []"
  by (simp add: seed_eval)

section \<open>Properties of the palette registry\<close>

lemma gameboy_roles_in_colors: "roles_in_colors palette_gameboy"
  by (simp add: roles_in_colors_def role_in_colors_def palette_gameboy_def)

lemma pastel_roles_in_colors: "roles_in_colors palette_pastel"
  by (simp add: roles_in_colors_def role_in_colors_def palette_pastel_def)

text \<open>
  C2. The claim: in each registered palette every entry of the five role lists is a
  member of the flat colour list, so the engine's \<open>indexOf\<close> lookup succeeds. It holds
  for \<open>gameboy\<close> and \<open>pastel\<close>. In \<open>nes\<close> no skin tone is one of the sixteen colours:
  the lookup of every skin tone returns \<open>-1\<close>, the transparent sentinel, and so does
  the lookup of four of the six hair colours.
\<close>

theorem nes_skin_not_in_colors:
  "\<not> roles_in_colors palette_nes
   \<and> \<not> role_in_colors palette_nes (skin palette_nes)
   \<and> map (\<lambda>c. indexOf (colors palette_nes) (Some c)) (skin palette_nes)
       = [-1, -1, -1, -1, -1, -1]
   \<and> map (\<lambda>c. indexOf (colors palette_nes) (Some c)) (hair palette_nes)
       = [0, -1, -1, -1, -1, 1]
   \<and> indexOf (colors palette_nes) (elem_at (skin palette_nes) 0) = -1
   \<and> map snd palettes = [palette_nes, palette_gameboy, palette_pastel]"
  by (simp add: roles_in_colors_def role_in_colors_def palette_nes_def palettes_def
      indexOf_def elem_at_def)

section \<open>Properties of the raster buffer\<close>

lemma forE_append:
  "forE (xs @ ys) body s = (case forE xs body s of Inl e \<Rightarrow> Inl e | Inr s' \<Rightarrow> forE ys body s')"
  by (induction xs arbitrary: s) (auto split: sum.splits)

lemma mirror_row_0: "length row = w \<Longrightarrow> mirror_row w 0 row = row"
  by (auto simp: mirror_row_def intro!: nth_equalityI)

lemma mirror_row_length: "length (mirror_row w k row) = w"
  by (simp add: mirror_row_def)

lemma mirror_row_step:
  assumes "length row = w" and "k < w div 2"
  shows "(mirror_row w k row)[w - 1 - k := mirror_row w k row ! k] = mirror_row w (Suc k) row"
proof (rule nth_equalityI)
  show "length ((mirror_row w k row)[w - 1 - k := mirror_row w k row ! k])
      = length (mirror_row w (Suc k) row)"
    by (simp add: mirror_row_def)
next
  fix j
  assume "j < length ((mirror_row w k row)[w - 1 - k := mirror_row w k row ! k])"
  then have j: "j < w" by (simp add: mirror_row_def)
  have k: "k < w" "k < w - k" using assms(2) by auto
  show "(mirror_row w k row)[w - 1 - k := mirror_row w k row ! k] ! j
      = mirror_row w (Suc k) row ! j"
  proof (cases "j = w - 1 - k")
    case True
    then show ?thesis using j k by (simp add: mirror_row_def)
  next
    case False
    then show ?thesis using j k by (auto simp add: mirror_row_def)
  qed
qed

text \<open>The inner loop of mirrorVertically on row y, run for the first k columns.\<close>

lemma mirror_inner:
  assumes "wf_buffer b" and "y < height b" and "k \<le> width b div 2"
  shows "forE [0..<k] (\<lambda>x b.
           let mirrorX = width b - 1 - x
           in case cell_read (buffer b) y x of
                Inl e \<Rightarrow> Inl e
              | Inr v \<Rightarrow> (case cell_write (buffer b) y mirrorX v of
                           Inl e \<Rightarrow> Inl e
                         | Inr g \<Rightarrow> Inr (b\<lparr>buffer := g\<rparr>))) b
         = Inr (b\<lparr>buffer := (buffer b)[y := mirror_row (width b) k (buffer b ! y)]\<rparr>)"
  using assms(3)
proof (induction k)
  case 0
  have "length (buffer b ! y) = width b"
    using assms(1,2) by (simp add: wf_buffer_def list_all_length)
  then show ?case by (simp add: mirror_row_0)
next
  case (Suc k)
  have len: "length (buffer b) = height b" using assms(1) by (simp add: wf_buffer_def)
  have row: "length (buffer b ! y) = width b"
    using assms(1,2) by (simp add: wf_buffer_def list_all_length)
  have k: "k < width b div 2" using Suc.prems by simp
  then have kk: "k < width b" "width b - 1 - k < width b" by auto
  have step: "(mirror_row (width b) k (buffer b ! y))
      [width b - 1 - k := mirror_row (width b) k (buffer b ! y) ! k]
      = mirror_row (width b) (Suc k) (buffer b ! y)"
    using row k by (rule mirror_row_step)
  show ?case
    using Suc.IH k kk len assms(2) step
    by (simp add: forE_append cell_read_def cell_write_def mirror_row_length Let_def)
qed

lemma mirror_rows_step:
  assumes "n < length g"
  shows "(mirror_rows w n g)[n := mirror_row w (w div 2) (mirror_rows w n g ! n)]
       = mirror_rows w (Suc n) g"
  using assms by (auto simp: mirror_rows_def intro!: nth_equalityI simp: nth_list_update)

lemma wf_mirror_rows:
  assumes "wf_buffer b"
  shows "wf_buffer (b\<lparr>buffer := mirror_rows (width b) n (buffer b)\<rparr>)"
  using assms
  by (auto simp: wf_buffer_def mirror_rows_def list_all_length mirror_row_length)

lemma mirror_outer:
  assumes "wf_buffer b" and "n \<le> height b"
  shows "forE [0..<n] (\<lambda>y. forE [0..<width b div 2] (\<lambda>x b.
           let mirrorX = width b - 1 - x
           in case cell_read (buffer b) y x of
                Inl e \<Rightarrow> Inl e
              | Inr v \<Rightarrow> (case cell_write (buffer b) y mirrorX v of
                           Inl e \<Rightarrow> Inl e
                         | Inr g \<Rightarrow> Inr (b\<lparr>buffer := g\<rparr>)))) b
         = Inr (b\<lparr>buffer := mirror_rows (width b) n (buffer b)\<rparr>)"
  using assms(2)
proof (induction n)
  case 0
  have "mirror_rows (width b) 0 (buffer b) = buffer b"
    by (auto simp: mirror_rows_def intro!: nth_equalityI)
  then show ?case by simp
next
  case (Suc n)
  let ?b = "b\<lparr>buffer := mirror_rows (width b) n (buffer b)\<rparr>"
  have wf: "wf_buffer ?b" using assms(1) by (rule wf_mirror_rows)
  have n: "n < height ?b" using Suc.prems by simp
  have len: "length (buffer b) = height b" using assms(1) by (simp add: wf_buffer_def)
  have inner: "forE [0..<width b div 2] (\<lambda>x b.
           let mirrorX = width b - 1 - x
           in case cell_read (buffer b) n x of
                Inl e \<Rightarrow> Inl e
              | Inr v \<Rightarrow> (case cell_write (buffer b) n mirrorX v of
                           Inl e \<Rightarrow> Inl e
                         | Inr g \<Rightarrow> Inr (b\<lparr>buffer := g\<rparr>))) ?b
      = Inr (?b\<lparr>buffer := (buffer ?b)[n := mirror_row (width ?b) (width b div 2) (buffer ?b ! n)]\<rparr>)"
    using mirror_inner [OF wf n, of "width b div 2"] by simp
  have step: "(mirror_rows (width b) n (buffer b))
      [n := mirror_row (width b) (width b div 2) (mirror_rows (width b) n (buffer b) ! n)]
      = mirror_rows (width b) (Suc n) (buffer b)"
    using Suc.prems len by (intro mirror_rows_step) simp
  show ?case
    using Suc.IH Suc.prems inner step by (simp add: forE_append)
qed

lemma mirrorVertically_eq:
  assumes "wf_buffer b"
  shows "mirrorVertically b = Inr (b\<lparr>buffer := map (mirror_row (width b) (width b div 2)) (buffer b)\<rparr>)"
proof -
  have len: "length (buffer b) = height b" using assms by (simp add: wf_buffer_def)
  have "mirror_rows (width b) (height b) (buffer b)
      = map (mirror_row (width b) (width b div 2)) (buffer b)"
    using len by (auto simp: mirror_rows_def intro!: nth_equalityI)
  then show ?thesis
    using mirror_outer [OF assms, of "height b"] by (simp add: mirrorVertically_def Let_def)
qed


lemma wf_PixelBuffer_new: "wf_buffer (PixelBuffer_new w h)"
  by (simp add: wf_buffer_def PixelBuffer_new_def list_all_length)

lemma wf_row_length:
  "wf_buffer b \<Longrightarrow> y < height b \<Longrightarrow> length (buffer b ! y) = width b"
  by (simp add: wf_buffer_def list_all_length)

lemma setPixel_wf:
  assumes "wf_buffer b"
  shows "\<exists>b'. setPixel x y c b = Inr b' \<and> wf_buffer b' \<and> width b' = width b \<and> height b' = height b"
proof (cases "x \<ge> 0 \<and> x < int (width b) \<and> y \<ge> 0 \<and> y < int (height b)")
  case False
  then show ?thesis using assms by (auto simp: setPixel_def)
next
  case True
  then have y: "nat y < height b" and x: "nat x < width b" by auto
  have len: "length (buffer b) = height b" using assms by (simp add: wf_buffer_def)
  have row: "length (buffer b ! nat y) = width b" using assms y by (rule wf_row_length)
  have "wf_buffer (b\<lparr>buffer := (buffer b)[nat y := (buffer b ! nat y)[nat x := c]]\<rparr>)"
    using assms y by (auto simp: wf_buffer_def list_all_length nth_list_update)
  then show ?thesis
    using True x y len row by (simp add: setPixel_def cell_write_def)
qed

lemma getPixel_wf:
  assumes "wf_buffer b"
  shows "\<exists>v. getPixel x y b = Inr v"
proof (cases "x \<ge> 0 \<and> x < int (width b) \<and> y \<ge> 0 \<and> y < int (height b)")
  case False
  then show ?thesis by (auto simp: getPixel_def)
next
  case True
  then have y: "nat y < height b" and x: "nat x < width b" by auto
  have len: "length (buffer b) = height b" using assms by (simp add: wf_buffer_def)
  have row: "length (buffer b ! nat y) = width b" using assms y by (rule wf_row_length)
  show ?thesis using True x y len row by (simp add: getPixel_def cell_read_def)
qed

text \<open>
  C7. On every buffer and at all integer coordinates, \<open>setPixel\<close> and \<open>getPixel\<close>
  return without an error; outside the \<open>width\<close> by \<open>height\<close> bounds \<open>setPixel\<close>
  returns the buffer as it was and \<open>getPixel\<close> returns the transparent sentinel
  \<open>-1\<close>.
\<close>

theorem setPixel_getPixel_never_throw:
  assumes "wf_buffer b"
  shows "(\<exists>b'. setPixel x y c b = Inr b')
       \<and> (\<exists>v. getPixel x y b = Inr v)
       \<and> (in_bounds x y b \<or> (setPixel x y c b = Inr b \<and> getPixel x y b = Inr (-1)))"
proof -
  have 1: "\<exists>b'. setPixel x y c b = Inr b'" using setPixel_wf [OF assms] by blast
  have 2: "\<exists>v. getPixel x y b = Inr v" using assms by (rule getPixel_wf)
  have 3: "in_bounds x y b \<or> (setPixel x y c b = Inr b \<and> getPixel x y b = Inr (-1))"
    by (auto simp: in_bounds_def setPixel_def getPixel_def)
  from 1 2 3 show ?thesis by blast
qed

theorem setPixel_getPixel_never_throw_witness:
  "setPixel (-1) 20 1 (PixelBuffer_new 16 16) = Inr (PixelBuffer_new 16 16)
   \<and> getPixel (-1) 20 (PixelBuffer_new 16 16) = Inr (-1)
   \<and> (\<exists>b'. setPixel 5 5 1 (PixelBuffer_new 16 16) = Inr b')"
proof -
  have nb: "\<not> in_bounds (-1) 20 (PixelBuffer_new 16 16)"
    by (simp add: in_bounds_def PixelBuffer_new_def)
  show ?thesis
    using setPixel_getPixel_never_throw [OF wf_PixelBuffer_new, of "-1" 20 1 16 16]
      setPixel_getPixel_never_throw [OF wf_PixelBuffer_new, of 5 5 1 16 16] nb
    by blast
qed

lemma getPixel_nat:
  assumes "wf_buffer b" and "x < width b" and "y < height b"
  shows "getPixel (int x) (int y) b = Inr (buffer b ! y ! x)"
  using assms wf_row_length [OF assms(1,3)]
  by (simp add: getPixel_def cell_read_def wf_buffer_def)

lemma wf_mirrored:
  "wf_buffer b \<Longrightarrow> wf_buffer (b\<lparr>buffer := map (mirror_row (width b) k) (buffer b)\<rparr>)"
  by (simp add: wf_buffer_def list_all_length mirror_row_length)

text \<open>
  C8. After \<open>mirrorVertically()\<close> on a buffer of width \<open>w\<close>, in every row \<open>y\<close> and
  for each \<open>x < w div 2\<close>: the new cell at \<open>(w - 1 - x, y)\<close> is the old cell at
  \<open>(x, y)\<close>, and the cell at \<open>(x, y)\<close> is unchanged. The old right half does not
  occur on the right-hand sides: it is overwritten whatever it held.
\<close>

theorem mirrorVertically_reflects:
  assumes "wf_buffer b"
  shows "\<exists>b'. mirrorVertically b = Inr b' \<and> width b' = width b \<and> height b' = height b
     \<and> (\<forall>y x. y < height b \<and> x < width b div 2 \<longrightarrow>
           getPixel (int (width b - 1 - x)) (int y) b' = getPixel (int x) (int y) b
         \<and> getPixel (int x) (int y) b' = getPixel (int x) (int y) b)"
proof -
  let ?w = "width b"
  let ?b' = "b\<lparr>buffer := map (mirror_row ?w (?w div 2)) (buffer b)\<rparr>"
  have eq: "mirrorVertically b = Inr ?b'" using assms by (rule mirrorVertically_eq)
  have wf': "wf_buffer ?b'" using assms by (rule wf_mirrored)
  have len: "length (buffer b) = height b" using assms by (simp add: wf_buffer_def)
  have cells: "getPixel (int (?w - 1 - x)) (int y) ?b' = getPixel (int x) (int y) b
         \<and> getPixel (int x) (int y) ?b' = getPixel (int x) (int y) b"
    if y: "y < height b" and x: "x < ?w div 2" for x y
  proof -
    have xw: "x < ?w" "?w - 1 - x < ?w" "?w - ?w div 2 \<le> ?w - 1 - x" "\<not> ?w - ?w div 2 \<le> x"
      using x by auto
    have old: "getPixel (int x) (int y) b = Inr (buffer b ! y ! x)"
      using assms xw(1) y by (rule getPixel_nat)
    have new1: "getPixel (int (?w - 1 - x)) (int y) ?b' = Inr (buffer ?b' ! y ! (?w - 1 - x))"
      using getPixel_nat [OF wf', of "?w - 1 - x" y] xw y by simp
    have new2: "getPixel (int x) (int y) ?b' = Inr (buffer ?b' ! y ! x)"
      using getPixel_nat [OF wf', of x y] xw y by simp
    have r1: "buffer ?b' ! y ! (?w - 1 - x) = buffer b ! y ! x"
      using xw y len by (simp add: mirror_row_def)
    have r2: "buffer ?b' ! y ! x = buffer b ! y ! x"
      using xw y len by (simp add: mirror_row_def)
    show ?thesis using old new1 new2 r1 r2 by simp
  qed
  show ?thesis using eq cells by auto
qed

theorem mirrorVertically_reflects_witness:
  "\<exists>b'. mirrorVertically sample_row = Inr b'
     \<and> getPixel 4 0 b' = Inr 1 \<and> getPixel 3 0 b' = Inr 2
     \<and> getPixel 0 0 b' = Inr 1 \<and> getPixel 1 0 b' = Inr 2"
proof -
  have wf: "wf_buffer sample_row" by (simp add: wf_buffer_def sample_row_def)
  obtain b' where m: "mirrorVertically sample_row = Inr b'"
    and c: "\<And>y x. y < height sample_row \<and> x < width sample_row div 2 \<Longrightarrow>
           getPixel (int (width sample_row - 1 - x)) (int y) b' = getPixel (int x) (int y) sample_row
         \<and> getPixel (int x) (int y) b' = getPixel (int x) (int y) sample_row"
    using mirrorVertically_reflects [OF wf] by blast
  have g0: "getPixel 0 0 sample_row = Inr 1" and g1: "getPixel 1 0 sample_row = Inr 2"
    by (simp_all add: getPixel_def cell_read_def sample_row_def)
  have "getPixel 4 0 b' = Inr 1 \<and> getPixel 0 0 b' = Inr 1"
    using c [of 0 0] g0 by (simp add: sample_row_def)
  moreover have "getPixel 3 0 b' = Inr 2 \<and> getPixel 1 0 b' = Inr 2"
    using c [of 0 1] g1 by (simp add: sample_row_def)
  ultimately show ?thesis using m by blast
qed

lemma mirror_row_idem:
  assumes "length row = w"
  shows "mirror_row w (w div 2) (mirror_row w (w div 2) row) = mirror_row w (w div 2) row"
proof (rule nth_equalityI)
  show "length (mirror_row w (w div 2) (mirror_row w (w div 2) row))
      = length (mirror_row w (w div 2) row)"
    by (simp add: mirror_row_length)
next
  fix j
  assume "j < length (mirror_row w (w div 2) (mirror_row w (w div 2) row))"
  then have j: "j < w" by (simp add: mirror_row_length)
  show "mirror_row w (w div 2) (mirror_row w (w div 2) row) ! j = mirror_row w (w div 2) row ! j"
  proof (cases "w - w div 2 \<le> j")
    case True
    then have "w - 1 - j < w" "\<not> w - w div 2 \<le> w - 1 - j" using j by auto
    then show ?thesis using True j by (simp add: mirror_row_def)
  next
    case False
    then show ?thesis using j by (simp add: mirror_row_def)
  qed
qed

text \<open>
  C10. \<open>mirrorVertically\<close> is idempotent: a second call returns the buffer the first
  call returned.
\<close>

theorem mirrorVertically_idempotent:
  assumes "wf_buffer b"
  shows "\<exists>b'. mirrorVertically b = Inr b' \<and> mirrorVertically b' = Inr b'"
proof -
  let ?w = "width b"
  let ?b' = "b\<lparr>buffer := map (mirror_row ?w (?w div 2)) (buffer b)\<rparr>"
  have eq: "mirrorVertically b = Inr ?b'" using assms by (rule mirrorVertically_eq)
  have wf': "wf_buffer ?b'" using assms by (rule wf_mirrored)
  have rows: "\<forall>row \<in> set (buffer b). length row = ?w"
    using assms by (simp add: wf_buffer_def list_all_iff)
  have "map (mirror_row ?w (?w div 2)) (map (mirror_row ?w (?w div 2)) (buffer b))
      = map (mirror_row ?w (?w div 2)) (buffer b)"
    using rows by (simp add: mirror_row_idem)
  then have "mirrorVertically ?b' = Inr ?b'"
    using mirrorVertically_eq [OF wf'] by simp
  with eq show ?thesis by simp
qed

theorem mirrorVertically_idempotent_witness:
  "\<exists>b'. mirrorVertically sample_row = Inr b' \<and> mirrorVertically b' = Inr b'"
proof -
  have wf: "wf_buffer sample_row" by (simp add: wf_buffer_def sample_row_def)
  show ?thesis using mirrorVertically_idempotent [OF wf] .
qed

section \<open>Properties of the feature selection\<close>

lemma prng_draws_step: "prng_draws (Suc n) s = snd (prng_next (prng_draws n s))"
  by (induction n arbitrary: s) simp_all

lemma prng_int_at:
  "prng_int len (prng_draws n s) = (as_index len (raw_draw s n), prng_draws (Suc n) s)"
  unfolding prng_draws_step
  by (simp add: prng_int_def as_index_def raw_draw_def case_prod_beta del: prng_draws.simps)

lemma prng_pick_at:
  "prng_pick xs (prng_draws n s) = (as_choice xs (raw_draw s n), prng_draws (Suc n) s)"
  unfolding prng_pick_def prng_int_at
  by (simp add: as_index_def as_choice_def del: prng_draws.simps)

lemma prng_chance_at:
  "prng_chance p (prng_draws n s) = (as_chance p (raw_draw s n), prng_draws (Suc n) s)"
  unfolding prng_draws_step
  by (simp add: prng_chance_def as_chance_def raw_draw_def case_prod_beta del: prng_draws.simps)

lemmas at_simps = prng_int_at prng_pick_at prng_chance_at

text \<open>
  C3. For every seed and palette, feature selection consumes the generator in the fixed
  order of the specification (\<open>spec_features\<close>: the \<open>n\<close>-th feature is computed from
  the \<open>n\<close>-th value drawn, the kind of an optional feature being drawn only when its
  presence draw succeeded), and leaves the generator after exactly those draws. The
  features are a function of the seed and the palette.
\<close>

theorem generateFeatures_draw_order:
  "generateFeatures p s = (spec_features p s, prng_draws (spec_draw_count s) s)"
proof -
  have "generateFeatures p (prng_draws 0 s)
      = (spec_features p s, prng_draws (spec_draw_count s) s)"
    unfolding generateFeatures_def spec_features_def spec_draw_count_def
    by (simp add: at_simps Let_def eval_nat_numeral del: prng_draws.simps)
  then show ?thesis by simp
qed

text \<open>
  The first sixteen draws from the seed of \<open>test@example.com\<close>, computed state by
  state.
\<close>

lemma sample_draws:
  "raw_draw (XorShift32 1405876145) 0 = 2324030671"
  "raw_draw (XorShift32 1405876145) (Suc 0) = 4120897505"
  "raw_draw (XorShift32 1405876145) 2 = 622569808"
  "raw_draw (XorShift32 1405876145) 3 = 1442949192"
  "raw_draw (XorShift32 1405876145) 4 = 35364940"
  "raw_draw (XorShift32 1405876145) 5 = 3025236965"
  "raw_draw (XorShift32 1405876145) 6 = 3751690387"
  "raw_draw (XorShift32 1405876145) 7 = 3859366389"
  "raw_draw (XorShift32 1405876145) 8 = 147282734"
  "raw_draw (XorShift32 1405876145) 9 = 2550117663"
  "raw_draw (XorShift32 1405876145) 10 = 1255199633"
  "raw_draw (XorShift32 1405876145) 11 = 1157211072"
  "raw_draw (XorShift32 1405876145) 12 = 1622338432"
  "raw_draw (XorShift32 1405876145) 13 = 2241616193"
  "raw_draw (XorShift32 1405876145) 14 = 3627793787"
  "raw_draw (XorShift32 1405876145) 15 = 1560665233"
  "prng_draws 15 (XorShift32 1405876145) = 3627793787"
proof -
  have d0: "prng_draws 0 (XorShift32 1405876145) = 1405876145" by (simp add: XorShift32_def)
  have n0: "prng_next 1405876145 = (2324030671, 2324030671)"
    by (simp add: prng_next_def Let_def)
  have n1: "prng_next 2324030671 = (4120897505, 4120897505)"
    by (simp add: prng_next_def Let_def)
  have n2: "prng_next 4120897505 = (622569808, 622569808)"
    by (simp add: prng_next_def Let_def)
  have n3: "prng_next 622569808 = (1442949192, 1442949192)"
    by (simp add: prng_next_def Let_def)
  have n4: "prng_next 1442949192 = (35364940, 35364940)"
    by (simp add: prng_next_def Let_def)
  have n5: "prng_next 35364940 = (3025236965, 3025236965)"
    by (simp add: prng_next_def Let_def)
  have n6: "prng_next 3025236965 = (3751690387, 3751690387)"
    by (simp add: prng_next_def Let_def)
  have n7: "prng_next 3751690387 = (3859366389, 3859366389)"
    by (simp add: prng_next_def Let_def)
  have n8: "prng_next 3859366389 = (147282734, 147282734)"
    by (simp add: prng_next_def Let_def)
  have n9: "prng_next 147282734 = (2550117663, 2550117663)"
    by (simp add: prng_next_def Let_def)
  have n10: "prng_next 2550117663 = (1255199633, 1255199633)"
    by (simp add: prng_next_def Let_def)
  have n11: "prng_next 1255199633 = (1157211072, 1157211072)"
    by (simp add: prng_next_def Let_def)
  have n12: "prng_next 1157211072 = (1622338432, 1622338432)"
    by (simp add: prng_next_def Let_def)
  have n13: "prng_next 1622338432 = (2241616193, 2241616193)"
    by (simp add: prng_next_def Let_def)
  have n14: "prng_next 2241616193 = (3627793787, 3627793787)"
    by (simp add: prng_next_def Let_def)
  have n15: "prng_next 3627793787 = (1560665233, 1560665233)"
    by (simp add: prng_next_def Let_def)
  have d1: "prng_draws 1 (XorShift32 1405876145) = 2324030671"
  proof -
    have "prng_draws (Suc 0) (XorShift32 1405876145) = snd (prng_next (prng_draws 0 (XorShift32 1405876145)))"
      by (rule prng_draws_step)
    then have "prng_draws (Suc 0) (XorShift32 1405876145) = 2324030671" by (simp only: d0 n0 snd_conv)
    then show ?thesis by (simp del: prng_draws.simps)
  qed
  have d2: "prng_draws 2 (XorShift32 1405876145) = 4120897505"
  proof -
    have "prng_draws (Suc 1) (XorShift32 1405876145) = snd (prng_next (prng_draws 1 (XorShift32 1405876145)))"
      by (rule prng_draws_step)
    then have "prng_draws (Suc 1) (XorShift32 1405876145) = 4120897505" by (simp only: d1 n1 snd_conv)
    then show ?thesis by (simp add: numeral_2_eq_2 del: prng_draws.simps)
  qed
  have d3: "prng_draws 3 (XorShift32 1405876145) = 622569808"
  proof -
    have "prng_draws (Suc 2) (XorShift32 1405876145) = snd (prng_next (prng_draws 2 (XorShift32 1405876145)))"
      by (rule prng_draws_step)
    then have "prng_draws (Suc 2) (XorShift32 1405876145) = 622569808" by (simp only: d2 n2 snd_conv)
    then show ?thesis by (simp del: prng_draws.simps)
  qed
  have d4: "prng_draws 4 (XorShift32 1405876145) = 1442949192"
  proof -
    have "prng_draws (Suc 3) (XorShift32 1405876145) = snd (prng_next (prng_draws 3 (XorShift32 1405876145)))"
      by (rule prng_draws_step)
    then have "prng_draws (Suc 3) (XorShift32 1405876145) = 1442949192" by (simp only: d3 n3 snd_conv)
    then show ?thesis by (simp del: prng_draws.simps)
  qed
  have d5: "prng_draws 5 (XorShift32 1405876145) = 35364940"
  proof -
    have "prng_draws (Suc 4) (XorShift32 1405876145) = snd (prng_next (prng_draws 4 (XorShift32 1405876145)))"
      by (rule prng_draws_step)
    then have "prng_draws (Suc 4) (XorShift32 1405876145) = 35364940" by (simp only: d4 n4 snd_conv)
    then show ?thesis by (simp del: prng_draws.simps)
  qed
  have d6: "prng_draws 6 (XorShift32 1405876145) = 3025236965"
  proof -
    have "prng_draws (Suc 5) (XorShift32 1405876145) = snd (prng_next (prng_draws 5 (XorShift32 1405876145)))"
      by (rule prng_draws_step)
    then have "prng_draws (Suc 5) (XorShift32 1405876145) = 3025236965" by (simp only: d5 n5 snd_conv)
    then show ?thesis by (simp del: prng_draws.simps)
  qed
  have d7: "prng_draws 7 (XorShift32 1405876145) = 3751690387"
  proof -
    have "prng_draws (Suc 6) (XorShift32 1405876145) = snd (prng_next (prng_draws 6 (XorShift32 1405876145)))"
      by (rule prng_draws_step)
    then have "prng_draws (Suc 6) (XorShift32 1405876145) = 3751690387" by (simp only: d6 n6 snd_conv)
    then show ?thesis by (simp del: prng_draws.simps)
  qed
  have d8: "prng_draws 8 (XorShift32 1405876145) = 3859366389"
  proof -
    have "prng_draws (Suc 7) (XorShift32 1405876145) = snd (prng_next (prng_draws 7 (XorShift32 1405876145)))"
      by (rule prng_draws_step)
    then have "prng_draws (Suc 7) (XorShift32 1405876145) = 3859366389" by (simp only: d7 n7 snd_conv)
    then show ?thesis by (simp del: prng_draws.simps)
  qed
  have d9: "prng_draws 9 (XorShift32 1405876145) = 147282734"
  proof -
    have "prng_draws (Suc 8) (XorShift32 1405876145) = snd (prng_next (prng_draws 8 (XorShift32 1405876145)))"
      by (rule prng_draws_step)
    then have "prng_draws (Suc 8) (XorShift32 1405876145) = 147282734" by (simp only: d8 n8 snd_conv)
    then show ?thesis by (simp del: prng_draws.simps)
  qed
  have d10: "prng_draws 10 (XorShift32 1405876145) = 2550117663"
  proof -
    have "prng_draws (Suc 9) (XorShift32 1405876145) = snd (prng_next (prng_draws 9 (XorShift32 1405876145)))"
      by (rule prng_draws_step)
    then have "prng_draws (Suc 9) (XorShift32 1405876145) = 2550117663" by (simp only: d9 n9 snd_conv)
    then show ?thesis by (simp del: prng_draws.simps)
  qed
  have d11: "prng_draws 11 (XorShift32 1405876145) = 1255199633"
  proof -
    have "prng_draws (Suc 10) (XorShift32 1405876145) = snd (prng_next (prng_draws 10 (XorShift32 1405876145)))"
      by (rule prng_draws_step)
    then have "prng_draws (Suc 10) (XorShift32 1405876145) = 1255199633" by (simp only: d10 n10 snd_conv)
    then show ?thesis by (simp del: prng_draws.simps)
  qed
  have d12: "prng_draws 12 (XorShift32 1405876145) = 1157211072"
  proof -
    have "prng_draws (Suc 11) (XorShift32 1405876145) = snd (prng_next (prng_draws 11 (XorShift32 1405876145)))"
      by (rule prng_draws_step)
    then have "prng_draws (Suc 11) (XorShift32 1405876145) = 1157211072" by (simp only: d11 n11 snd_conv)
    then show ?thesis by (simp del: prng_draws.simps)
  qed
  have d13: "prng_draws 13 (XorShift32 1405876145) = 1622338432"
  proof -
    have "prng_draws (Suc 12) (XorShift32 1405876145) = snd (prng_next (prng_draws 12 (XorShift32 1405876145)))"
      by (rule prng_draws_step)
    then have "prng_draws (Suc 12) (XorShift32 1405876145) = 1622338432" by (simp only: d12 n12 snd_conv)
    then show ?thesis by (simp del: prng_draws.simps)
  qed
  have d14: "prng_draws 14 (XorShift32 1405876145) = 2241616193"
  proof -
    have "prng_draws (Suc 13) (XorShift32 1405876145) = snd (prng_next (prng_draws 13 (XorShift32 1405876145)))"
      by (rule prng_draws_step)
    then have "prng_draws (Suc 13) (XorShift32 1405876145) = 2241616193" by (simp only: d13 n13 snd_conv)
    then show ?thesis by (simp del: prng_draws.simps)
  qed
  have d15: "prng_draws 15 (XorShift32 1405876145) = 3627793787"
  proof -
    have "prng_draws (Suc 14) (XorShift32 1405876145) = snd (prng_next (prng_draws 14 (XorShift32 1405876145)))"
      by (rule prng_draws_step)
    then have "prng_draws (Suc 14) (XorShift32 1405876145) = 3627793787" by (simp only: d14 n14 snd_conv)
    then show ?thesis by (simp del: prng_draws.simps)
  qed
  show "raw_draw (XorShift32 1405876145) 0 = 2324030671"
    unfolding raw_draw_def d0 n0 by simp
  show "raw_draw (XorShift32 1405876145) (Suc 0) = 4120897505"
    using d1 n1 by (simp add: raw_draw_def del: prng_draws.simps)
  show "raw_draw (XorShift32 1405876145) 2 = 622569808"
    unfolding raw_draw_def d2 n2 by simp
  show "raw_draw (XorShift32 1405876145) 3 = 1442949192"
    unfolding raw_draw_def d3 n3 by simp
  show "raw_draw (XorShift32 1405876145) 4 = 35364940"
    unfolding raw_draw_def d4 n4 by simp
  show "raw_draw (XorShift32 1405876145) 5 = 3025236965"
    unfolding raw_draw_def d5 n5 by simp
  show "raw_draw (XorShift32 1405876145) 6 = 3751690387"
    unfolding raw_draw_def d6 n6 by simp
  show "raw_draw (XorShift32 1405876145) 7 = 3859366389"
    unfolding raw_draw_def d7 n7 by simp
  show "raw_draw (XorShift32 1405876145) 8 = 147282734"
    unfolding raw_draw_def d8 n8 by simp
  show "raw_draw (XorShift32 1405876145) 9 = 2550117663"
    unfolding raw_draw_def d9 n9 by simp
  show "raw_draw (XorShift32 1405876145) 10 = 1255199633"
    unfolding raw_draw_def d10 n10 by simp
  show "raw_draw (XorShift32 1405876145) 11 = 1157211072"
    unfolding raw_draw_def d11 n11 by simp
  show "raw_draw (XorShift32 1405876145) 12 = 1622338432"
    unfolding raw_draw_def d12 n12 by simp
  show "raw_draw (XorShift32 1405876145) 13 = 2241616193"
    unfolding raw_draw_def d13 n13 by simp
  show "raw_draw (XorShift32 1405876145) 14 = 3627793787"
    unfolding raw_draw_def d14 n14 by simp
  show "raw_draw (XorShift32 1405876145) 15 = 1560665233"
    unfolding raw_draw_def d15 n15 by simp
  show "prng_draws 15 (XorShift32 1405876145) = 3627793787" by (rule d15)
qed

theorem generateFeatures_draw_order_witness:
  "generateFeatures palette_nes (XorShift32 1405876145) =
     (\<lparr>skinTone = Some 1, jawShape = Some JawPointed, eyeShape = Some EyeWide,
       browShape = Some BrowThin, noseShape = Some NoseLine, mouthShape = Some MouthFlat,
       hairStyle = Some HairBun, hairColor = Some 3, facialHair = Some Stubble,
       accessories = \<lparr>glasses = None, earrings = False, hat = None\<rparr>,
       clothesStyle = Some Tshirt, clothesColor = Some 2\<rparr>, 3627793787)"
proof -
  have f: "spec_features palette_nes (XorShift32 1405876145) =
     \<lparr>skinTone = Some 1, jawShape = Some JawPointed, eyeShape = Some EyeWide,
       browShape = Some BrowThin, noseShape = Some NoseLine, mouthShape = Some MouthFlat,
       hairStyle = Some HairBun, hairColor = Some 3, facialHair = Some Stubble,
       accessories = \<lparr>glasses = None, earrings = False, hat = None\<rparr>,
       clothesStyle = Some Tshirt, clothesColor = Some 2\<rparr>"
    by (simp add: spec_features_def Let_def sample_draws as_chance_def as_index_def
        as_choice_def palette_nes_def)
  have c: "spec_draw_count (XorShift32 1405876145) = 15"
    by (simp add: spec_draw_count_def Let_def sample_draws as_chance_def)
  show ?thesis
    using generateFeatures_draw_order [of palette_nes "XorShift32 1405876145"]
    by (simp only: f c sample_draws)
qed

lemma as_chance_threshold:
  fixes a b k :: nat
  assumes "0 < b" and "k * b < a * 4294967296" and "a * 4294967296 \<le> (k + 1) * b"
  shows "as_chance (of_nat a / of_nat b) r = (r \<le> k)"
proof -
  have "(of_nat r / 4294967296 < (of_nat a / of_nat b :: rat))
      = ((of_nat (r * b) :: rat) < of_nat (a * 4294967296))"
    using assms(1) by (simp add: field_simps)
  also have "\<dots> = (r * b < a * 4294967296)" by (simp only: of_nat_less_iff)
  also have "\<dots> = (r \<le> k)"
  proof
    assume lt: "r * b < a * 4294967296"
    show "r \<le> k"
    proof (rule ccontr)
      assume "\<not> r \<le> k"
      then have "k + 1 \<le> r" by simp
      then have "(k + 1) * b \<le> r * b" by (rule mult_le_mono1)
      then have "a * 4294967296 \<le> r * b" using assms(3) by (rule le_trans [rotated])
      then show False using lt by linarith
    qed
  next
    assume "r \<le> k"
    then have "r * b \<le> k * b" by (rule mult_le_mono1)
    then show "r * b < a * 4294967296" using assms(2) by (rule le_less_trans)
  qed
  finally show ?thesis by (simp add: as_chance_def)
qed

lemma prng_chance_as_chance:
  "prng_chance p s = (as_chance p (unat (fst (prng_next s))), snd (prng_next s))"
  by (simp add: prng_chance_def as_chance_def case_prod_beta)

text \<open>
  The probability literals of the source denote doubles, not the decimal fractions; on
  every value a draw can take, the double and the fraction give the same answer.
\<close>

lemma chance_double_literals:
  "prng_chance (5404319552844595 / 18014398509481984) s = prng_chance (3 / 10) s"
  "prng_chance (5404319552844595 / 36028797018963968) s = prng_chance (3 / 20) s"
  "prng_chance (3602879701896397 / 18014398509481984) s = prng_chance (1 / 5) s"
  "prng_chance (3152519739159347 / 4503599627370496) s = prng_chance (7 / 10) s"
  "prng_chance (3602879701896397 / 9007199254740992) s = prng_chance (2 / 5) s"
  "prng_chance (5404319552844595 / 9007199254740992) s = prng_chance (3 / 5) s"
  "prng_chance (3602879701896397 / 36028797018963968) s = prng_chance (1 / 10) s"
proof -
  have a: "as_chance (5404319552844595 / 18014398509481984) r = as_chance (3 / 10) r" for r
    using as_chance_threshold [of 18014398509481984 1288490188 5404319552844595 r]
      as_chance_threshold [of 10 1288490188 3 r] by simp
  have b: "as_chance (5404319552844595 / 36028797018963968) r = as_chance (3 / 20) r" for r
    using as_chance_threshold [of 36028797018963968 644245094 5404319552844595 r]
      as_chance_threshold [of 20 644245094 3 r] by simp
  have c: "as_chance (3602879701896397 / 18014398509481984) r = as_chance (1 / 5) r" for r
    using as_chance_threshold [of 18014398509481984 858993459 3602879701896397 r]
      as_chance_threshold [of 5 858993459 1 r] by simp
  have d: "as_chance (3152519739159347 / 4503599627370496) r = as_chance (7 / 10) r" for r
    using as_chance_threshold [of 4503599627370496 3006477107 3152519739159347 r]
      as_chance_threshold [of 10 3006477107 7 r] by simp
  have e: "as_chance (3602879701896397 / 9007199254740992) r = as_chance (2 / 5) r" for r
    using as_chance_threshold [of 9007199254740992 1717986918 3602879701896397 r]
      as_chance_threshold [of 5 1717986918 2 r] by simp
  have f: "as_chance (5404319552844595 / 9007199254740992) r = as_chance (3 / 5) r" for r
    using as_chance_threshold [of 9007199254740992 2576980377 5404319552844595 r]
      as_chance_threshold [of 5 2576980377 3 r] by simp
  have g: "as_chance (3602879701896397 / 36028797018963968) r = as_chance (1 / 10) r" for r
    using as_chance_threshold [of 36028797018963968 429496729 3602879701896397 r]
      as_chance_threshold [of 10 429496729 1 r] by simp
  show "prng_chance (5404319552844595 / 18014398509481984) s = prng_chance (3 / 10) s"
    "prng_chance (5404319552844595 / 36028797018963968) s = prng_chance (3 / 20) s"
    "prng_chance (3602879701896397 / 18014398509481984) s = prng_chance (1 / 5) s"
    "prng_chance (3152519739159347 / 4503599627370496) s = prng_chance (7 / 10) s"
    "prng_chance (3602879701896397 / 9007199254740992) s = prng_chance (2 / 5) s"
    "prng_chance (5404319552844595 / 9007199254740992) s = prng_chance (3 / 5) s"
    "prng_chance (3602879701896397 / 36028797018963968) s = prng_chance (1 / 10) s"
    by (simp_all only: prng_chance_as_chance a b c d e f g)
qed

section \<open>Properties of the raster encoder\<close>

lemma generatePNG_try_form:
  assumes "generatePNG_try hl d w h = Inr png"
  shows "\<exists>mid. png = png_signature @ mid @ png_iend"
proof (cases w)
  case None
  then show ?thesis using assms by (simp add: generatePNG_try_def)
next
  case (Some w')
  show ?thesis
  proof (cases h)
    case None
    then show ?thesis using assms Some by (simp add: generatePNG_try_def)
  next
    case h: (Some h')
    show ?thesis
      using assms unfolding generatePNG_try_def Some h
      by (auto simp: bindE_def Let_def Buffer_concat_def split: sum.splits if_splits)
  qed
qed

lemma minimal_png_form: "\<exists>mid. minimal_png = png_signature @ mid @ png_iend"
proof -
  have "minimal_png = png_signature @ drop 8 (take 54 minimal_png) @ png_iend"
    by (simp add: minimal_png_def png_signature_def png_iend_def)
  then show ?thesis by blast
qed

lemma generatePNG_form: "\<exists>mid. generatePNG hl d w h = png_signature @ mid @ png_iend"
proof (cases "generatePNG_try hl d w h")
  case (Inl e)
  then show ?thesis using minimal_png_form by (simp add: generatePNG_def)
next
  case (Inr png)
  then show ?thesis using generatePNG_try_form [OF Inr] by (simp add: generatePNG_def)
qed

lemma toPNG_is_generatePNG: "\<exists>d w h. toPNG hl b sz bg pn = generatePNG hl d w h"
proof (cases "toPNG_try hl b sz bg pn")
  case (Inl e)
  then show ?thesis unfolding toPNG_def by auto
next
  case (Inr png)
  then have "\<exists>d w h. png = generatePNG hl d w h"
    unfolding toPNG_try_def
    by (auto simp: bindE_def Let_def split: option.splits sum.splits prod.splits)
  then show ?thesis using Inr by (simp add: toPNG_def)
qed

lemma framed_take_drop:
  assumes "xs = png_signature @ mid @ png_iend"
  shows "take 8 xs = png_signature \<and> drop (length xs - 12) xs = png_iend"
  using assms by (simp add: png_signature_def png_iend_def)

text \<open>
  C9. For every buffer, requested size, background and palette name (and whatever the
  host's allocation limits), the bytes \<open>toPNG\<close> returns begin with the 8-byte PNG
  signature 89 50 4E 47 0D 0A 1A 0A and end with the 12-byte IEND chunk
  00 00 00 00 49 45 4E 44 AE 42 60 82; so does the 1 by 1 transparent placeholder that
  the \<open>catch\<close> of \<open>toPNG\<close> returns when the generation fails.
\<close>

theorem toPNG_signature_and_iend:
  "take 8 (toPNG hl b sz bg pn) = [0x89, 0x50, 0x4e, 0x47, 0x0d, 0x0a, 0x1a, 0x0a]
   \<and> drop (length (toPNG hl b sz bg pn) - 12) (toPNG hl b sz bg pn)
       = [0x00, 0x00, 0x00, 0x00, 0x49, 0x45, 0x4e, 0x44, 0xae, 0x42, 0x60, 0x82]
   \<and> take 8 (generatePNG hl fallbackData (Some 1) (Some 1))
       = [0x89, 0x50, 0x4e, 0x47, 0x0d, 0x0a, 0x1a, 0x0a]
   \<and> drop (length (generatePNG hl fallbackData (Some 1) (Some 1)) - 12)
         (generatePNG hl fallbackData (Some 1) (Some 1))
       = [0x00, 0x00, 0x00, 0x00, 0x49, 0x45, 0x4e, 0x44, 0xae, 0x42, 0x60, 0x82]"
proof -
  obtain d w h where g: "toPNG hl b sz bg pn = generatePNG hl d w h"
    using toPNG_is_generatePNG by blast
  obtain mid where m: "generatePNG hl d w h = png_signature @ mid @ png_iend"
    using generatePNG_form by blast
  obtain mid' where m': "generatePNG hl fallbackData (Some 1) (Some 1)
      = png_signature @ mid' @ png_iend"
    using generatePNG_form by blast
  show ?thesis
    using framed_take_drop [OF m] framed_take_drop [OF m'] g
    by (simp add: png_signature_def png_iend_def)
qed

text \<open>A palette name that reads an inherited member takes the fallback path.\<close>

lemma toPNG_fallback_taken:
  "toPNG_try hl b sz bg ''constructor'' = Inl Error
   \<and> toPNG hl b sz bg ''constructor'' = generatePNG hl fallbackData (Some 1) (Some 1)"
  by (simp add: toPNG_def toPNG_try_def getPalette_def palettes_def object_prototype_keys_def)

text \<open>The checksum and the container on concrete bytes.\<close>

lemma crcTable_nth: "i < 256 \<Longrightarrow> crcTable ! i = (crc_round ^^ 8) (of_nat i)"
  by (simp add: crcTable_def)

lemma crc_round_funpow8:
  "(crc_round ^^ 8) c
     = crc_round (crc_round (crc_round (crc_round (crc_round (crc_round (crc_round (crc_round c)))))))"
  by (simp add: eval_nat_numeral funpow_swap1)

lemma crc_ihdr:
  "crc32 [0x49, 0x48, 0x44, 0x52, 0,0,0,1, 0,0,0,1, 8, 6, 0, 0, 0] = 0x1f15c489"
  by (simp add: crc32_def crc_step_def crcTable_nth crc_round_funpow8 crc_round_def)

lemma list_update_Cons_numeral:
  "(x # xs)[numeral v := y] = x # xs[numeral v - 1 := y]"
  by (simp add: numeral_eq_Suc)

lemma replicate_numeral: "replicate (numeral v) x = x # replicate (numeral v - 1) x"
  by (simp add: numeral_eq_Suc)

lemmas bytes_eval = list_update_Cons_numeral replicate_numeral

lemma scanlines_1x1: "scanlines fallbackData (Suc 0) (Suc 0) [0, 0, 0, 0, 0] = [0, 0, 0, 0, 0]"
  by (simp add: scanlines_def put_def data_or_0_def fallbackData_def bytes_eval)

lemma deflate_5:
  assumes "67 \<le> max_typed_array hl" and "67 \<le> max_buffer hl"
  shows "deflate hl [0, 0, 0, 0, 0] = Inr [1, 5, 0, 0xfa, 0xff, 0, 0, 0, 0, 0]"
  using assms
  by (subst deflate_def, subst deflate_blocks.simps, subst deflate_blocks.simps)
    (simp add: Let_def le16_def bytes_eval bindE_def Buffer_alloc_def Buffer_concat_def
      Uint8Array_new_def)

lemma crc_idat:
  "crc32 [0x49, 0x44, 0x41, 0x54, 1, 5, 0, 0xfa, 0xff, 0, 0, 0, 0, 0] = 0xa15e3f58"
  by (simp add: crc32_def crc_step_def crcTable_nth crc_round_funpow8 crc_round_def)

text \<open>
  The placeholder \<open>toPNG\<close> falls back to, byte by byte, on every host that allocates
  its 67 bytes: a 1 by 1 image with the IHDR checksum 1F 15 C4 89, which is also the one
  in the constant of \<open>generatePNG\<close>'s \<open>catch\<close>.
\<close>

lemma fallback_png_bytes:
  assumes "67 \<le> max_typed_array hl" and "67 \<le> max_buffer hl"
  shows "generatePNG hl fallbackData (Some 1) (Some 1) =
     [137, 80, 78, 71, 13, 10, 26, 10,
      0, 0, 0, 13, 73, 72, 68, 82, 0, 0, 0, 1, 0, 0, 0, 1, 8, 6, 0, 0, 0, 31, 21, 196, 137,
      0, 0, 0, 10, 73, 68, 65, 84, 1, 5, 0, 250, 255, 0, 0, 0, 0, 0, 161, 94, 63, 88,
      0, 0, 0, 0, 73, 69, 78, 68, 174, 66, 96, 130]"
  using assms
  by (simp add: generatePNG_def generatePNG_try_def bindE_def Buffer_alloc_def
      Uint8Array_new_def writeUInt32BE_def writeUInt8_def write_ascii_def be32_def
      bytes_eval Let_def scanlines_1x1 deflate_5 [OF assms] subarray_def
      crc_ihdr crc_idat png_signature_def png_iend_def Buffer_concat_def)

section \<open>The whole pipeline returns, and returns the same\<close>

lemma forE_keeps:
  assumes "\<And>i s. i \<in> set xs \<Longrightarrow> P s \<Longrightarrow> \<exists>s'. body i s = Inr s' \<and> P s'" and "P s"
  shows "\<exists>s'. forE xs body s = Inr s' \<and> P s'"
  using assms
proof (induction xs arbitrary: s)
  case Nil
  then show ?case by simp
next
  case (Cons i xs)
  obtain s1 where s1: "body i s = Inr s1" "P s1" using Cons.prems(1) [of i s] Cons.prems(2) by auto
  have "\<exists>s'. forE xs body s1 = Inr s' \<and> P s'"
    using Cons.IH [of s1] Cons.prems(1) s1(2) by auto
  then show ?case using s1(1) by simp
qed

lemma setPixel_shape: "shape w h b \<Longrightarrow> \<exists>b'. setPixel x y c b = Inr b' \<and> shape w h b'"
  using setPixel_wf [of b x y c] by (auto simp: shape_def)

lemma fillRect_shape: "shape w h b \<Longrightarrow> \<exists>b'. fillRect x y rw rh c b = Inr b' \<and> shape w h b'"
  unfolding fillRect_def
  by (intro forE_keeps [where P = "shape w h"] setPixel_shape) 

lemma fillCircle_shape: "shape w h b \<Longrightarrow> \<exists>b'. fillCircle x y r c b = Inr b' \<and> shape w h b'"
  unfolding fillCircle_def
  apply (rule forE_keeps [where P = "shape w h"])
   apply (rule forE_keeps [where P = "shape w h"])
    apply (auto intro: setPixel_shape)
  done

lemma cell_write_shape:
  assumes "shape w h b" and "y < h" and "x < w"
  shows "\<exists>g. cell_write (buffer b) y x v = Inr g \<and> shape w h (b\<lparr>buffer := g\<rparr>)"
proof -
  have wf: "wf_buffer b" and wh: "width b = w" "height b = h"
    using assms(1) by (simp_all add: shape_def)
  have len: "length (buffer b) = h" using wf wh by (simp add: wf_buffer_def)
  have row: "length (buffer b ! y) = w" using wf_row_length [OF wf] assms(2) wh by simp
  have "shape w h (b\<lparr>buffer := (buffer b)[y := (buffer b ! y)[x := v]]\<rparr>)"
    using assms wf wh by (auto simp: shape_def wf_buffer_def list_all_length nth_list_update)
  then show ?thesis using len row assms(2,3) by (simp add: cell_write_def)
qed

lemma clear_shape:
  assumes "shape w h b"
  shows "\<exists>b'. clear b = Inr b' \<and> shape w h b'"
proof -
  have wh: "width b = w" "height b = h" using assms by (simp_all add: shape_def)
  have cell: "\<exists>s'. (case cell_write (buffer s0) y x (- 1) of Inl e \<Rightarrow> Inl e
                      | Inr g \<Rightarrow> Inr (s0\<lparr>buffer := g\<rparr>)) = Inr s' \<and> shape w h s'"
    if "shape w h s0" "y < h" "x < w" for s0 y x
    using cell_write_shape [OF that, of "-1"] by auto
  show ?thesis
    unfolding clear_def wh
    by (intro forE_keeps [where P = "shape w h"] cell assms) simp_all
qed

lemma mirrorVertically_shape:
  assumes "shape w h b"
  shows "\<exists>b'. mirrorVertically b = Inr b' \<and> shape w h b'"
proof -
  have wf: "wf_buffer b" using assms by (simp add: shape_def)
  show ?thesis
    using mirrorVertically_eq [OF wf] wf_mirrored [OF wf, of "width b div 2"] assms
    by (simp add: shape_def)
qed

lemma setPixel_ok_wf:
  assumes "wf_buffer b"
  shows "wf_buffer (setPixel_ok x y c b)" and "width (setPixel_ok x y c b) = width b"
    and "height (setPixel_ok x y c b) = height b"
  using setPixel_wf [OF assms, of x y c] by (auto simp: setPixel_ok_def)

lemma drawLine_loop_step:
  assumes "wf_buffer b"
  shows "drawLine_loop x1 y1 dx dy sx sy c x y err b =
     (if x = x1 \<and> y = y1 then Some (Inr (setPixel_ok x y c b))
      else drawLine_loop x1 y1 dx dy sx sy c
             (if 2 * err > - dy then x + sx else x)
             (if 2 * err < dx then y + sy else y)
             (if 2 * err < dx then (if 2 * err > - dy then err - dy else err) + dx
              else (if 2 * err > - dy then err - dy else err))
             (setPixel_ok x y c b))"
proof -
  obtain b' where b': "setPixel x y c b = Inr b'" using setPixel_wf [OF assms] by blast
  then have ok: "setPixel_ok x y c b = b'" by (simp add: setPixel_ok_def)
  show ?thesis
    unfolding ok by (subst drawLine_loop.simps) (simp add: b' Let_def)
qed

lemmas line_simps = drawLine_def drawLine_loop_step setPixel_ok_wf shape_def

lemma returnsI:
  assumes "\<And>s. P s \<Longrightarrow> \<exists>s'. c s = Some (Inr s') \<and> P s'"
  shows "returns P c"
  using assms by (simp add: returns_def)

lemma returnsD: "returns P c \<Longrightarrow> P s \<Longrightarrow> \<exists>s'. c s = Some (Inr s') \<and> P s'"
  by (simp add: returns_def)

lemma returns_ret:
  assumes "\<And>s. P s \<Longrightarrow> \<exists>s'. f s = Inr s' \<and> P s'"
  shows "returns P (ret f)"
  using assms by (simp add: returns_def ret_def)

lemma returns_seq:
  assumes "list_all (returns P) cs"
  shows "returns P (seq cs)"
  using assms
proof (induction cs)
  case Nil
  then show ?case by (simp add: returns_def ok_def)
next
  case (Cons c cs)
  then have c: "returns P c" and cs: "returns P (seq cs)" by simp_all
  show ?case
  proof (rule returnsI)
    fix s assume "P s"
    then obtain s1 where "c s = Some (Inr s1)" "P s1" using returnsD [OF c] by blast
    then show "\<exists>s'. seq (c # cs) s = Some (Inr s') \<and> P s'"
      using returnsD [OF cs, of s1] by (simp add: bind_run_def)
  qed
qed

lemma returns_forR:
  assumes "\<And>i. returns P (body i)"
  shows "returns P (forR xs body)"
proof (induction xs)
  case Nil
  then show ?case by (simp add: returns_def ok_def)
next
  case (Cons i xs)
  show ?case
  proof (rule returnsI)
    fix s assume "P s"
    then obtain s1 where "body i s = Some (Inr s1)" "P s1" using returnsD [OF assms] by blast
    then show "\<exists>s'. forR (i # xs) body s = Some (Inr s') \<and> P s'"
      using returnsD [OF Cons, of s1] by (simp add: bind_run_def)
  qed
qed

lemma returns_setPixel: "returns (shape w h) (ret (setPixel x y c))"
  by (rule returns_ret) (rule setPixel_shape)

lemma returns_setPixel_at: "returns (shape w h) (ret (setPixel_at x0 i y0 j c))"
  by (rule returns_ret) (auto simp: setPixel_at_def setPixel_shape split: option.splits)

lemma returns_fillRect: "returns (shape w h) (ret (fillRect x y rw rh c))"
  by (rule returns_ret) (rule fillRect_shape)

lemma returns_fillCircle: "returns (shape w h) (ret (fillCircle x y r c))"
  by (rule returns_ret) (rule fillCircle_shape)

lemma returns_clear: "returns (shape w h) (ret clear)"
  by (rule returns_ret) (rule clear_shape)

lemma returns_mirrorVertically: "returns (shape w h) (ret mirrorVertically)"
  by (rule returns_ret) (rule mirrorVertically_shape)

text \<open>The lines the engine draws: each loop reaches its end point.\<close>

lemma returns_drawLine:
  "returns (shape w h) (drawLine 6 12 9 12 c)"
  "returns (shape w h) (drawLine 5 15 10 15 c)"
  "returns (shape w h) (drawLine 9 6 11 6 c)"
  "returns (shape w h) (drawLine 4 6 6 6 c)"
  "returns (shape w h) (drawLine 4 5 6 3 c)"
  "returns (shape w h) (drawLine 9 3 11 5 c)"
  "returns (shape w h) (drawLine 8 7 8 9 c)"
  "returns (shape w h) (drawLine 7 9 9 9 c)"
  "returns (shape w h) (drawLine 7 11 9 11 c)"
  "returns (shape w h) (drawLine 6 11 10 11 c)"
  "returns (shape w h) (drawLine 7 6 8 6 c)"
  by (simp_all add: returns_def line_simps)

lemmas returns_buffer =
  returns_setPixel returns_setPixel_at returns_fillRect returns_fillCircle returns_clear
  returns_mirrorVertically returns_drawLine

lemma returns_draw:
  assumes "list_all (returns (shape w h)) cs"
  shows "returns (eshape w h) (draw cs)"
proof (rule returnsI)
  fix e assume "eshape w h e"
  then have "shape w h (eng_buffer e)" by (simp add: eshape_def)
  then obtain b' where "seq cs (eng_buffer e) = Some (Inr b')" "shape w h b'"
    using returnsD [OF returns_seq [OF assms]] by blast
  then show "\<exists>e'. draw cs e = Some (Inr e') \<and> eshape w h e'"
    by (simp add: draw_def bind_run_def ok_def eshape_def)
qed

lemma eshape_prng [simp]: "eshape w h (e\<lparr>eng_prng := s\<rparr>) = eshape w h e"
  by (simp add: eshape_def)

lemma eshape_features [simp]: "eshape w h (e\<lparr>eng_features := f\<rparr>) = eshape w h e"
  by (simp add: eshape_def)

lemma returns_ok: "returns P ok"
  by (simp add: returns_def ok_def)

lemma draw_returns:
  assumes "list_all (returns (shape w h)) cs" and "eshape w h e"
  shows "\<exists>e'. draw cs e = Some (Inr e') \<and> eshape w h e'"
  using returnsD [OF returns_draw [OF assms(1)] assms(2)] .

lemma ok_returns: "P s \<Longrightarrow> \<exists>s'. ok s = Some (Inr s') \<and> P s'"
  by (simp add: ok_def)

lemma returns_drawHead: "returns (eshape w h) drawHead"
proof (rule returnsI)
  fix e assume "eshape w h e"
  then show "\<exists>e'. drawHead e = Some (Inr e') \<and> eshape w h e'"
    unfolding drawHead_def Let_def
    by (intro draw_returns) (simp_all add: returns_buffer split: option.splits JawShape.splits)
qed

lemma returns_drawNeck: "returns (eshape w h) drawNeck"
proof (rule returnsI)
  fix e assume "eshape w h e"
  then show "\<exists>e'. drawNeck e = Some (Inr e') \<and> eshape w h e'"
    unfolding drawNeck_def Let_def
    by (intro draw_returns) (simp_all add: returns_buffer)
qed

lemma returns_drawShoulders: "returns (eshape w h) drawShoulders"
proof (rule returnsI)
  fix e assume "eshape w h e"
  then show "\<exists>e'. drawShoulders e = Some (Inr e') \<and> eshape w h e'"
    unfolding drawShoulders_def Let_def
    by (intro draw_returns) (simp_all add: returns_buffer)
qed

lemma returns_drawShirt: "returns (eshape w h) drawShirt"
proof (rule returnsI)
  fix e assume e: "eshape w h e"
  let ?cc = "role_index (eng_palette e) (clothes (eng_palette e)) (clothesColor (eng_features e))"
  let ?ac = "role_index (eng_palette e) (accent (eng_palette e)) (Some 0)"
  show "\<exists>e'. drawShirt e = Some (Inr e') \<and> eshape w h e'"
  proof (cases "clothesStyle (eng_features e)")
    case None
    then show ?thesis using e by (simp add: drawShirt_def ok_def)
  next
    case (Some st)
    show ?thesis
    proof (cases st)
      case Collar
      have "\<exists>e'. draw [ret (fillRect 3 13 10 3 ?cc), drawLine 6 12 9 12 ?ac,
                        ret (setPixel 7 13 ?ac), ret (setPixel 8 14 ?ac)] e = Some (Inr e')
                  \<and> eshape w h e'"
        using e by (intro draw_returns) (simp_all add: returns_buffer)
      then show ?thesis using Some Collar by (simp add: drawShirt_def Let_def)
    next
      case Hoodie
      have "\<exists>e'. draw [ret (fillRect 2 13 12 3 ?cc), ret (setPixel 6 12 ?ac),
                        ret (setPixel 9 12 ?ac), drawLine 5 15 10 15 ?ac] e = Some (Inr e')
                  \<and> eshape w h e'"
        using e by (intro draw_returns) (simp_all add: returns_buffer)
      then show ?thesis using Some Hoodie by (simp add: drawShirt_def Let_def)
    next
      case Tshirt
      obtain e1 where e1: "draw [ret (fillRect 3 13 10 3 ?cc)] e = Some (Inr e1)" "eshape w h e1"
        using draw_returns [of w h "[ret (fillRect 3 13 10 3 ?cc)]" e] e
        by (auto simp: returns_buffer)
      obtain logo s1 where c: "prng_chance (3 / 10) (eng_prng e1) = (logo, s1)"
        by (cases "prng_chance (3 / 10) (eng_prng e1)")
      have e2: "eshape w h (e1\<lparr>eng_prng := s1\<rparr>)" using e1(2) by simp
      have "\<exists>e'. draw [ret (setPixel 8 14 ?ac), ret (setPixel 7 15 ?ac),
                        ret (setPixel 9 15 ?ac)] (e1\<lparr>eng_prng := s1\<rparr>) = Some (Inr e')
                  \<and> eshape w h e'"
        using e2 by (intro draw_returns) (simp_all add: returns_buffer)
      then show ?thesis
        using Some Tshirt e1 c e2 by (auto simp: drawShirt_def bind_run_def ok_def Let_def)
    qed
  qed
qed

lemma returns_drawHair: "returns (eshape w h) drawHair"
proof (rule returnsI)
  fix e assume "eshape w h e"
  then show "\<exists>e'. drawHair e = Some (Inr e') \<and> eshape w h e'"
    unfolding drawHair_def Let_def
    by (intro draw_returns) (simp_all add: returns_buffer split: option.splits HairStyle.splits)
qed

lemma returns_drawBrows: "returns (eshape w h) drawBrows"
proof (rule returnsI)
  fix e assume "eshape w h e"
  then show "\<exists>e'. drawBrows e = Some (Inr e') \<and> eshape w h e'"
    unfolding drawBrows_def Let_def
    by (intro draw_returns) (simp_all add: returns_buffer split: option.splits BrowShape.splits)
qed

lemma returns_drawEyes: "returns (eshape w h) drawEyes"
proof (rule returnsI)
  fix e assume e: "eshape w h e"
  obtain i s1 where d: "prng_int (length (eyes (eng_palette e))) (eng_prng e) = (i, s1)"
    by (cases "prng_int (length (eyes (eng_palette e))) (eng_prng e)")
  have e1: "eshape w h (e\<lparr>eng_prng := s1\<rparr>)" using e by simp
  show "\<exists>e'. drawEyes e = Some (Inr e') \<and> eshape w h e'"
    unfolding drawEyes_def Let_def d prod.case
    by (intro draw_returns e1) (simp_all add: returns_buffer split: option.splits EyeShape.splits)
qed

lemma returns_drawNose: "returns (eshape w h) drawNose"
proof (rule returnsI)
  fix e assume "eshape w h e"
  then show "\<exists>e'. drawNose e = Some (Inr e') \<and> eshape w h e'"
    unfolding drawNose_def Let_def
    by (intro draw_returns) (simp_all add: returns_buffer split: option.splits NoseShape.splits)
qed

lemma returns_drawMouth: "returns (eshape w h) drawMouth"
proof (rule returnsI)
  fix e assume "eshape w h e"
  then show "\<exists>e'. drawMouth e = Some (Inr e') \<and> eshape w h e'"
    unfolding drawMouth_def Let_def
    by (intro draw_returns) (simp_all add: returns_buffer split: option.splits MouthShape.splits)
qed

lemma returns_stubble_round: "returns (eshape w h) (stubble_round c)"
proof (rule returnsI)
  fix e assume e: "eshape w h e"
  obtain grow s1 where c: "prng_chance (3 / 10) (eng_prng e) = (grow, s1)"
    by (cases "prng_chance (3 / 10) (eng_prng e)")
  obtain i s2 where i: "prng_int 8 s1 = (i, s2)" by (cases "prng_int 8 s1")
  obtain j s3 where j: "prng_int 2 s2 = (j, s3)" by (cases "prng_int 2 s2")
  have "\<exists>e'. draw [ret (setPixel_at 4 i 12 j c)] (e\<lparr>eng_prng := s3\<rparr>) = Some (Inr e')
              \<and> eshape w h e'"
    using e by (intro draw_returns) (simp_all add: returns_buffer)
  then show "\<exists>e'. stubble_round c e = Some (Inr e') \<and> eshape w h e'"
    using e by (simp add: stubble_round_def c i j ok_def)
qed

lemma returns_drawFacialHair: "returns (eshape w h) drawFacialHair"
proof (rule returnsI)
  fix e assume e: "eshape w h e"
  let ?hc = "role_index (eng_palette e) (hair (eng_palette e)) (hairColor (eng_features e))"
  show "\<exists>e'. drawFacialHair e = Some (Inr e') \<and> eshape w h e'"
  proof (cases "facialHair (eng_features e)")
    case None
    then show ?thesis using e by (simp add: drawFacialHair_def ok_def)
  next
    case (Some kind)
    show ?thesis
    proof (cases kind)
      case Stubble
      have "\<exists>e'. forR [0..<8] (\<lambda>i. stubble_round ?hc) e = Some (Inr e') \<and> eshape w h e'"
        using returnsD [OF returns_forR [of "eshape w h" "\<lambda>i. stubble_round ?hc"] e]
        by (simp add: returns_stubble_round)
      then show ?thesis using Some Stubble by (simp add: drawFacialHair_def Let_def)
    next
      case Mustache
      have "\<exists>e'. draw [ret (fillRect 6 9 4 1 ?hc)] e = Some (Inr e') \<and> eshape w h e'"
        using e by (intro draw_returns) (simp_all add: returns_buffer)
      then show ?thesis using Some Mustache by (simp add: drawFacialHair_def Let_def)
    next
      case Goatee
      have "\<exists>e'. draw [ret (fillRect 7 12 2 2 ?hc)] e = Some (Inr e') \<and> eshape w h e'"
        using e by (intro draw_returns) (simp_all add: returns_buffer)
      then show ?thesis using Some Goatee by (simp add: drawFacialHair_def Let_def)
    qed
  qed
qed

lemma returns_drawAccessories: "returns (eshape w h) drawAccessories"
proof (rule returnsI)
  fix e assume "eshape w h e"
  then show "\<exists>e'. drawAccessories e = Some (Inr e') \<and> eshape w h e'"
    unfolding drawAccessories_def Let_def
    by (intro draw_returns)
      (simp_all add: returns_buffer split: option.splits Glasses.splits Hat.splits)
qed

lemma returns_addAsymmetry: "returns (eshape w h) addAsymmetry"
proof -
  have one: "returns (eshape w h)
      (\<lambda>e. if earrings (accessories (eng_features e))
             then (let (single, s1) = prng_chance (3 / 10) (eng_prng e);
                       e1 = e\<lparr>eng_prng := s1\<rparr>
                   in if single then draw [ret (setPixel 12 7 (-1))] e1 else ok e1)
             else ok e)"
  proof (rule returnsI)
    fix e assume e: "eshape w h e"
    obtain single s1 where c: "prng_chance (3 / 10) (eng_prng e) = (single, s1)"
      by (cases "prng_chance (3 / 10) (eng_prng e)")
    have "\<exists>e'. draw [ret (setPixel 12 7 (-1))] (e\<lparr>eng_prng := s1\<rparr>) = Some (Inr e')
                \<and> eshape w h e'"
      using e by (intro draw_returns) (simp_all add: returns_buffer)
    then show "\<exists>e'. (if earrings (accessories (eng_features e))
             then (let (single, s1) = prng_chance (3 / 10) (eng_prng e);
                       e1 = e\<lparr>eng_prng := s1\<rparr>
                   in if single then draw [ret (setPixel 12 7 (-1))] e1 else ok e1)
             else ok e) = Some (Inr e') \<and> eshape w h e'"
      using e by (simp add: c ok_def Let_def)
  qed
  have two: "returns (eshape w h)
      (\<lambda>e. (let (mark, s1) = prng_chance (1 / 10) (eng_prng e)
              in if mark then
                   (let (i, s2) = prng_int 8 s1;
                        (j, s3) = prng_int 4 s2
                    in draw [ret (setPixel_at 4 i 7 j 0)] (e\<lparr>eng_prng := s3\<rparr>))
                 else ok (e\<lparr>eng_prng := s1\<rparr>)))"
  proof (rule returnsI)
    fix e assume e: "eshape w h e"
    obtain mark s1 where c: "prng_chance (1 / 10) (eng_prng e) = (mark, s1)"
      by (cases "prng_chance (1 / 10) (eng_prng e)")
    obtain i s2 where i: "prng_int 8 s1 = (i, s2)" by (cases "prng_int 8 s1")
    obtain j s3 where j: "prng_int 4 s2 = (j, s3)" by (cases "prng_int 4 s2")
    have "\<exists>e'. draw [ret (setPixel_at 4 i 7 j 0)] (e\<lparr>eng_prng := s3\<rparr>) = Some (Inr e')
                \<and> eshape w h e'"
      using e by (intro draw_returns) (simp_all add: returns_buffer)
    then show "\<exists>e'. (let (mark, s1) = prng_chance (1 / 10) (eng_prng e)
              in if mark then
                   (let (i, s2) = prng_int 8 s1;
                        (j, s3) = prng_int 4 s2
                    in draw [ret (setPixel_at 4 i 7 j 0)] (e\<lparr>eng_prng := s3\<rparr>))
                 else ok (e\<lparr>eng_prng := s1\<rparr>)) = Some (Inr e') \<and> eshape w h e'"
      using e by (simp add: c i j ok_def)
  qed
  have three: "returns (eshape w h)
      (\<lambda>e. if hairStyle (eng_features e) \<noteq> Some HairBald
             then (let (vary, s1) = prng_chance (1 / 5) (eng_prng e)
                   in if vary then
                        (let p = eng_palette e;
                             hairColorIndex = role_index p (hair p) (hairColor (eng_features e));
                             (i, s2) = prng_int 2 s1;
                             (j, s3) = prng_int 3 s2
                         in draw [ret (setPixel_at 2 i 3 j hairColorIndex)] (e\<lparr>eng_prng := s3\<rparr>))
                      else ok (e\<lparr>eng_prng := s1\<rparr>))
             else ok e)"
  proof (rule returnsI)
    fix e assume e: "eshape w h e"
    let ?hc = "role_index (eng_palette e) (hair (eng_palette e)) (hairColor (eng_features e))"
    obtain vary s1 where c: "prng_chance (1 / 5) (eng_prng e) = (vary, s1)"
      by (cases "prng_chance (1 / 5) (eng_prng e)")
    obtain i s2 where i: "prng_int 2 s1 = (i, s2)" by (cases "prng_int 2 s1")
    obtain j s3 where j: "prng_int 3 s2 = (j, s3)" by (cases "prng_int 3 s2")
    have "\<exists>e'. draw [ret (setPixel_at 2 i 3 j ?hc)] (e\<lparr>eng_prng := s3\<rparr>) = Some (Inr e')
                \<and> eshape w h e'"
      using e by (intro draw_returns) (simp_all add: returns_buffer)
    then show "\<exists>e'. (if hairStyle (eng_features e) \<noteq> Some HairBald
             then (let (vary, s1) = prng_chance (1 / 5) (eng_prng e)
                   in if vary then
                        (let p = eng_palette e;
                             hairColorIndex = role_index p (hair p) (hairColor (eng_features e));
                             (i, s2) = prng_int 2 s1;
                             (j, s3) = prng_int 3 s2
                         in draw [ret (setPixel_at 2 i 3 j hairColorIndex)] (e\<lparr>eng_prng := s3\<rparr>))
                      else ok (e\<lparr>eng_prng := s1\<rparr>))
             else ok e) = Some (Inr e') \<and> eshape w h e'"
      using e by (simp add: c i j ok_def Let_def)
  qed
  show ?thesis
    unfolding addAsymmetry_def
    by (rule returns_seq) (simp only: list.pred_inject one two three simp_thms)
qed

lemma eshape_applyMood: "eshape w h (applyMood mood e) = eshape w h e"
  by (cases mood) (simp_all add: applyMood_def Let_def eshape_def split: prod.splits)

lemma eshape_applyGender: "eshape w h (applyGender gender e) = eshape w h e"
  by (simp add: applyGender_def Let_def eshape_def split: prod.splits)

lemma returns_generate_steps:
  "returns (eshape w h)
     (seq [\<lambda>e. ok (applyMood mood e),
           \<lambda>e. ok (applyGender gender e),
           draw [ret clear],
           drawShoulders, drawShirt, drawNeck, drawHead, drawHair, drawBrows, drawEyes,
           drawNose, drawMouth, drawFacialHair, drawAccessories,
           draw [ret mirrorVertically],
           addAsymmetry])"
proof -
  have m: "returns (eshape w h) (\<lambda>e. ok (applyMood mood e))"
    by (simp add: returns_def ok_def eshape_applyMood)
  have g: "returns (eshape w h) (\<lambda>e. ok (applyGender gender e))"
    by (simp add: returns_def ok_def eshape_applyGender)
  have c: "returns (eshape w h) (draw [ret clear])"
    by (rule returns_draw) (simp add: returns_buffer)
  have v: "returns (eshape w h) (draw [ret mirrorVertically])"
    by (rule returns_draw) (simp add: returns_buffer)
  show ?thesis
    by (rule returns_seq)
      (simp add: m g c v returns_drawShoulders returns_drawShirt returns_drawNeck
        returns_drawHead returns_drawHair returns_drawBrows returns_drawEyes returns_drawNose
        returns_drawMouth returns_drawFacialHair returns_drawAccessories returns_addAsymmetry)
qed

lemma generate_returns:
  assumes "eshape w h e"
  shows "\<exists>b e'. generate mood gender e = Some (Inr (b, e')) \<and> shape w h b \<and> b = eng_buffer e'"
proof -
  obtain e' where "seq [\<lambda>e. ok (applyMood mood e),
           \<lambda>e. ok (applyGender gender e),
           draw [ret clear],
           drawShoulders, drawShirt, drawNeck, drawHead, drawHair, drawBrows, drawEyes,
           drawNose, drawMouth, drawFacialHair, drawAccessories,
           draw [ret mirrorVertically],
           addAsymmetry] e = Some (Inr e')" and "eshape w h e'"
    using returnsD [OF returns_generate_steps assms] by blast
  then show ?thesis
    unfolding generate_def by (simp add: bind_run_def ok_def eshape_def)
qed

lemma AvatarEngine_new_shape:
  assumes "getPalette pn = Some p"
  shows "\<exists>e. AvatarEngine_new seed pn = Inr e \<and> eshape 16 16 e \<and> eng_palette e = p"
  using assms
  by (simp add: AvatarEngine_new_def eshape_def shape_def PixelBuffer_new_def wf_buffer_def
      list_all_length split: prod.splits)

lemma AvatarEngine_new_throws:
  "getPalette pn = None \<Longrightarrow> AvatarEngine_new seed pn = Inl TypeError"
  by (simp add: AvatarEngine_new_def)

lemma getPalette_Some:
  "pn \<notin> set object_prototype_keys \<Longrightarrow> \<exists>p. getPalette pn = Some p"
  by (simp add: getPalette_def split: option.splits)

lemma AvatarEngine_new_Inr:
  assumes "AvatarEngine_new seed pn = Inr e"
  shows "eshape 16 16 e"
proof (cases "getPalette pn")
  case None
  then show ?thesis using assms by (simp add: AvatarEngine_new_def)
next
  case (Some p)
  then show ?thesis using AvatarEngine_new_shape [OF Some, of seed] assms by auto
qed

lemma PixelBuffer_eqI:
  fixes b b' :: PixelBuffer
  assumes "getData b' = getData b" and "width b' = width b" and "height b' = height b"
  shows "b' = b"
  using assms by (cases b, cases b') (simp add: getData_def)

text \<open>
  C1. Two runs on the same seed, palette name, mood and gender: each constructs a fresh
  engine and calls \<open>generate\<close> once. Both calls return (no loop of the drawing runs
  forever and nothing throws), and they return the same 16 by 16 buffer. On buffers with
  the same contents and the same size, background and palette name, \<open>toSVG\<close> returns
  the same markup and \<open>toPNG\<close> the same bytes. (When the palette name reads an
  inherited member of the registry object, the constructor throws in every run:
  \<open>AvatarEngine_new_throws\<close>.)
\<close>

theorem pipeline_two_run_determinism:
  assumes "AvatarEngine_new seed pn = Inr e1" and "AvatarEngine_new seed pn = Inr e2"
    and "generate mood gender e1 = r1" and "generate mood gender e2 = r2"
  shows "\<exists>b e'. r1 = Some (Inr (b, e')) \<and> r2 = Some (Inr (b, e')) \<and> shape 16 16 b
     \<and> (\<forall>b'. getData b' = getData b \<and> width b' = width b \<and> height b' = height b \<longrightarrow>
           toSVG js b' sz bg pn' = toSVG js b sz bg pn'
         \<and> toPNG hl b' sz bg pn' = toPNG hl b sz bg pn')"
proof -
  have same: "e2 = e1" using assms(1,2) by simp
  have "eshape 16 16 e1" using assms(1) by (rule AvatarEngine_new_Inr)
  then obtain b e' where g: "generate mood gender e1 = Some (Inr (b, e'))" and s: "shape 16 16 b"
    using generate_returns [of 16 16 e1 mood gender] by blast
  have enc: "toSVG js b' sz bg pn' = toSVG js b sz bg pn'
         \<and> toPNG hl b' sz bg pn' = toPNG hl b sz bg pn'"
    if "getData b' = getData b \<and> width b' = width b \<and> height b' = height b" for b'
    using PixelBuffer_eqI [of b' b] that by simp
  show ?thesis using g s same assms(3,4) enc by blast
qed

theorem pipeline_two_run_determinism_witness:
  "\<exists>e b e'. AvatarEngine_new 1405876145 ''nes'' = Inr e
     \<and> generate Neutral Auto e = Some (Inr (b, e')) \<and> shape 16 16 b"
proof -
  have "getPalette ''nes'' = Some palette_nes" by (simp add: getPalette_def palettes_def)
  then obtain e where e: "AvatarEngine_new 1405876145 ''nes'' = Inr e"
    using AvatarEngine_new_shape by blast
  show ?thesis
    using pipeline_two_run_determinism [OF e e refl refl, of Neutral Auto] e by blast
qed

section \<open>The unit tests of the repository, on the model\<close>

text \<open>
  The expectations of \<open>buffer.test.ts\<close> and of the PRNG tests, evaluated on the
  definitions above.
\<close>

lemma test_out_of_bounds:
  "setPixel (-1) (-1) 1 (PixelBuffer_new 16 16) = Inr (PixelBuffer_new 16 16)
   \<and> setPixel 20 20 1 (PixelBuffer_new 16 16) = Inr (PixelBuffer_new 16 16)
   \<and> getPixel (-1) (-1) (PixelBuffer_new 16 16) = Inr (-1)
   \<and> getPixel 20 20 (PixelBuffer_new 16 16) = Inr (-1)"
  by (simp add: setPixel_def getPixel_def PixelBuffer_new_def)

lemma test_mirror:
  "bindE (setPixel 2 5 1 (PixelBuffer_new 16 16)) (\<lambda>b1.
   bindE (setPixel 3 8 2 b1) (\<lambda>b2.
   bindE (setPixel 7 10 3 b2) (\<lambda>b3.
   bindE (mirrorVertically b3) (\<lambda>b4.
   Inr [getPixel 13 5 b4, getPixel 12 8 b4, getPixel 8 10 b4]))))
   = Inr [Inr 1, Inr 2, Inr 3]"
  by code_simp

lemma test_fillRect:
  "bindE (fillRect 5 5 3 3 1 (PixelBuffer_new 16 16)) (\<lambda>b.
     Inr (map (\<lambda>(x, y). getPixel x y b) [(5, 5), (6, 6), (7, 7), (4, 5), (8, 5)]))
   = Inr [Inr 1, Inr 1, Inr 1, Inr (-1), Inr (-1)]"
  by code_simp

lemma test_drawLine:
  "(case drawLine 2 5 6 5 1 (PixelBuffer_new 16 16) of
      Some (Inr b) \<Rightarrow> map (\<lambda>x. getPixel x 5 b) [1, 2, 3, 4, 5, 6, 7]
    | _ \<Rightarrow> [])
   = [Inr (-1), Inr 1, Inr 1, Inr 1, Inr 1, Inr 1, Inr (-1)]
   \<and> (case drawLine 10 2 10 6 2 (PixelBuffer_new 16 16) of
      Some (Inr b) \<Rightarrow> map (\<lambda>y. getPixel 10 y b) [1, 2, 3, 4, 5, 6, 7]
    | _ \<Rightarrow> [])
   = [Inr (-1), Inr 2, Inr 2, Inr 2, Inr 2, Inr 2, Inr (-1)]"
  by code_simp

lemma test_fillCircle:
  "bindE (fillCircle 8 8 3 1 (PixelBuffer_new 16 16)) (\<lambda>b.
     Inr [getPixel 8 8 b, getPixel 6 8 b, getPixel 10 8 b, getPixel 8 6 b, getPixel 8 10 b])
   = Inr [Inr 1, Inr 1, Inr 1, Inr 1, Inr 1]"
  by code_simp

lemma test_clear:
  "bindE (setPixel 5 5 1 (PixelBuffer_new 16 16)) (\<lambda>b1.
   bindE (setPixel 10 10 2 b1) clear) = Inr (PixelBuffer_new 16 16)"
  by code_simp

lemma test_zero_seed: "prng_next (XorShift32 0) = (270369, 270369)"
  by (simp add: prng_next_def XorShift32_def Let_def)

lemma test_emailToSeed:
  "emailToSeed (utf16 ''test@example.com'') [] = Some 1405876145
   \<and> emailToSeed (utf16 ''Test@Example.Com'') [] = Some 1405876145
   \<and> emailToSeed (utf16 ''  test@example.com  '') [] = Some 1405876145
   \<and> emailToSeed (utf16 ''test@example.com'') (utf16 ''salt'') \<noteq> Some 1405876145"
  by (simp add: seed_eval)

end
